theory Spec2Isabelle
  imports Complex_Main
begin

section \<open>Python strings\<close>

text \<open>
  Flight-plan tokens and the lines of the reference files are Python \<open>str\<close> values.
  They are modelled as \<open>string\<close>: a character is a code point below \<open>U+0100\<close>, and
  \<open>codepoint\<close> is Python's \<open>ord\<close>. The character tests are those of \<open>str.isalpha\<close>,
  \<open>str.isdigit\<close>, \<open>str.isdecimal\<close>, \<open>str.isnumeric\<close>, \<open>str.isalnum\<close> and
  \<open>str.isspace\<close> on every such code point: the letters include the Latin-1 ones
  (\<open>U+00AA\<close>, \<open>U+00B5\<close>, \<open>U+00BA\<close>, \<open>U+00C0\<close> to \<open>U+00FF\<close> without the two signs
  \<open>U+00D7\<close> and \<open>U+00F7\<close>), the digits include the superscripts \<open>U+00B2\<close>, \<open>U+00B3\<close>
  and \<open>U+00B9\<close>, the numerics the three fractions \<open>U+00BC\<close> to \<open>U+00BE\<close>, and the
  white space \<open>U+0085\<close> and \<open>U+00A0\<close>.
\<close>

definition codepoint :: "char \<Rightarrow> nat" where
  "codepoint c = of_char c"

definition isalpha :: "char \<Rightarrow> bool" where
  "isalpha c =
     ((65 \<le> codepoint c \<and> codepoint c \<le> 90) \<or> (97 \<le> codepoint c \<and> codepoint c \<le> 122)
      \<or> codepoint c = 170 \<or> codepoint c = 181 \<or> codepoint c = 186
      \<or> (192 \<le> codepoint c \<and> codepoint c \<le> 214)
      \<or> (216 \<le> codepoint c \<and> codepoint c \<le> 246)
      \<or> (248 \<le> codepoint c \<and> codepoint c \<le> 255))"

definition isdecimal :: "char \<Rightarrow> bool" where
  "isdecimal c = (48 \<le> codepoint c \<and> codepoint c \<le> 57)"

definition isdigit :: "char \<Rightarrow> bool" where
  "isdigit c = (isdecimal c \<or> codepoint c = 178 \<or> codepoint c = 179 \<or> codepoint c = 185)"

definition isnumeric :: "char \<Rightarrow> bool" where
  "isnumeric c = (isdigit c \<or> (188 \<le> codepoint c \<and> codepoint c \<le> 190))"

definition isalnum :: "char \<Rightarrow> bool" where
  "isalnum c = (isalpha c \<or> isdecimal c \<or> isdigit c \<or> isnumeric c)"

definition isspace :: "char \<Rightarrow> bool" where
  "isspace c =
     ((9 \<le> codepoint c \<and> codepoint c \<le> 13) \<or> (28 \<le> codepoint c \<and> codepoint c \<le> 32)
      \<or> codepoint c = 133 \<or> codepoint c = 160)"

text \<open>The string methods are false on the empty string.\<close>

definition str_isalpha :: "string \<Rightarrow> bool" where
  "str_isalpha s = (s \<noteq> [] \<and> list_all isalpha s)"

definition str_isdigit :: "string \<Rightarrow> bool" where
  "str_isdigit s = (s \<noteq> [] \<and> list_all isdigit s)"

definition str_isalnum :: "string \<Rightarrow> bool" where
  "str_isalnum s = (s \<noteq> [] \<and> list_all isalnum s)"

text \<open>\<open>s[i:j]\<close> for \<open>0 \<le> i \<le> j\<close>: shorter than \<open>j - i\<close> when \<open>s\<close> ends early.\<close>

definition slice :: "nat \<Rightarrow> nat \<Rightarrow> 'a list \<Rightarrow> 'a list" where
  "slice i j s = take (j - i) (drop i s)"

text \<open>\<open>s.count(c)\<close> and \<open>s.replace(c, '')\<close> for a one-character \<open>c\<close>.\<close>

definition count :: "string \<Rightarrow> char \<Rightarrow> nat" where
  "count s c = length (filter (\<lambda>x. x = c) s)"

definition remove_char :: "char \<Rightarrow> string \<Rightarrow> string" where
  "remove_char c s = filter (\<lambda>x. x \<noteq> c) s"

definition rstrip :: "string \<Rightarrow> string" where
  "rstrip s = rev (dropWhile isspace (rev s))"

definition strip :: "string \<Rightarrow> string" where
  "strip s = dropWhile isspace (rstrip s)"

text \<open>\<open>s.split()\<close>: the maximal runs of non-whitespace characters, in order.\<close>

fun split_acc :: "string \<Rightarrow> string \<Rightarrow> string list" where
  "split_acc cur [] = (if cur = [] then [] else [cur])"
| "split_acc cur (c # cs) =
     (if isspace c then (if cur = [] then split_acc [] cs else cur # split_acc [] cs)
      else split_acc (cur @ [c]) cs)"

definition split :: "string \<Rightarrow> string list" where
  "split s = split_acc [] s"

section \<open>Errors\<close>

text \<open>
  Every exception class of the program, and the built-in exceptions its code can raise,
  with the arguments the constructor is given.
\<close>

datatype error =
    ElementNotFoundError string
  | ElementAmbiguousError string
  | NotOnAirwayError string string
  | IllegalCharacterError string
  | UnnamedFormatError string
  | UnnamedOutOfBounds string
  | WrongAIRACcycleError string
  | ValueError
  | IndexError
  | KeyError
  | AttributeError
  | AssertionError

section \<open>Waypoints\<close>

text \<open>
  The attributes of a \<open>WayPoint\<close> and of its subclasses. Coordinates are Python floats,
  modelled as real numbers.
\<close>

record waypoint =
  name :: string
  lat :: real
  lon :: real
  type :: string
  descr :: string

definition WayPoint :: "string \<Rightarrow> real \<Rightarrow> real \<Rightarrow> waypoint" where
  "WayPoint n la lo = \<lparr>name = n, lat = la, lon = lo, type = ''WPT'', descr = ''''\<rparr>"

definition NavAid :: "string \<Rightarrow> real \<Rightarrow> real \<Rightarrow> string \<Rightarrow> string \<Rightarrow> waypoint" where
  "NavAid n la lo t d = (WayPoint n la lo)\<lparr>descr := d, type := t\<rparr>"

definition Airport :: "string \<Rightarrow> real \<Rightarrow> real \<Rightarrow> string \<Rightarrow> waypoint" where
  "Airport n la lo d = (WayPoint n la lo)\<lparr>type := ''ARP'', descr := d\<rparr>"

definition Runway :: "string \<Rightarrow> real \<Rightarrow> real \<Rightarrow> string \<Rightarrow> waypoint" where
  "Runway n la lo d = (WayPoint n la lo)\<lparr>type := ''RWY'', descr := d\<rparr>"

subsection \<open>Unnamed waypoints\<close>

text \<open>
  \<open>float\<close> on the slices the decoder passes to it. Each slice has passed \<open>isdigit\<close>,
  with at most one decimal point at a checked column. \<open>float\<close> reads the decimal
  digits \<open>0\<close> to \<open>9\<close> and gives the decimal number written; a superscript digit, which
  \<open>isdigit\<close> lets through, and any other text make it raise \<open>ValueError\<close> (\<open>None\<close>).
\<close>

definition digit_val :: "char \<Rightarrow> nat" where
  "digit_val c = of_char c - 48"

definition nat_of_digits :: "string \<Rightarrow> nat" where
  "nat_of_digits s = foldl (\<lambda>n c. 10 * n + digit_val c) 0 s"

definition float_dec :: "string \<Rightarrow> real option" where
  "float_dec s =
     (let ip = takeWhile (\<lambda>c. c \<noteq> CHR ''.'') s;
          r = dropWhile (\<lambda>c. c \<noteq> CHR ''.'') s
      in if r = [] then
           (if ip \<noteq> [] \<and> list_all isdecimal ip then Some (real (nat_of_digits ip)) else None)
         else
           (let fp = tl r
            in if list_all isdecimal ip \<and> list_all isdecimal fp \<and> (ip \<noteq> [] \<or> fp \<noteq> [])
               then Some (real (nat_of_digits ip) + real (nat_of_digits fp) / 10 ^ length fp)
               else None))"

text \<open>\<open>sgn * (float(a) + float(b) / d)\<close>, a \<open>ValueError\<close> when a conversion fails.\<close>

definition deg_min :: "real \<Rightarrow> string \<Rightarrow> string \<Rightarrow> real \<Rightarrow> error + real" where
  "deg_min sg a b d =
     (case float_dec a of None \<Rightarrow> Inl ValueError
      | Some x \<Rightarrow> (case float_dec b of None \<Rightarrow> Inl ValueError
          | Some y \<Rightarrow> Inr (sg * (x + y / d))))"

text \<open>The range check and the construction that end \<open>UnnamedWaypoint.__init__\<close>.\<close>

definition finish_unnamed :: "string \<Rightarrow> error + real \<Rightarrow> error + real \<Rightarrow> error + waypoint" where
  "finish_unnamed n la lo =
     (case la of Inl e \<Rightarrow> Inl e
      | Inr lat' \<Rightarrow> (case lo of Inl e \<Rightarrow> Inl e
          | Inr lon' \<Rightarrow>
              if lat' < - 90 \<or> 90 < lat' \<or> lon' < - 180 \<or> 180 < lon'
              then Inl (UnnamedOutOfBounds n)
              else Inr ((WayPoint n lat' lon')\<lparr>type := ''uWPT''\<rparr>)))"

text \<open>
  \<open>UnnamedWaypoint(_name)\<close>: one layout per length. The indices read in each branch lie
  below the length tested at its head.
\<close>

definition UnnamedWaypoint :: "string \<Rightarrow> error + waypoint" where
  "UnnamedWaypoint n =
     (let fixlen = length n in
      if fixlen = 16 then
        (if \<not> (n ! 0 \<in> set ''NS'' \<and> n ! 8 \<in> set ''EW'' \<and> n ! 7 = CHR ''/''
                \<and> n ! 5 = CHR ''.'' \<and> n ! 14 = CHR ''.''
                \<and> str_isdigit (slice 1 5 n) \<and> isdigit (n ! 6)
                \<and> str_isdigit (slice 9 14 n) \<and> isdigit (n ! 15))
         then Inl (UnnamedFormatError n)
         else finish_unnamed n
                (deg_min (if n ! 0 = CHR ''S'' then - 1 else 1) (slice 1 3 n) (slice 3 7 n) 60)
                (deg_min (if n ! 8 = CHR ''W'' then - 1 else 1) (slice 9 12 n) (slice 12 16 n) 60))
      else if fixlen = 12 then
        (if \<not> (n ! 4 \<in> set ''NS'' \<and> n ! 11 \<in> set ''EW'' \<and> n ! 5 = CHR ''/''
                \<and> str_isdigit (slice 0 4 n) \<and> str_isdigit (slice 6 11 n))
         then Inl (UnnamedFormatError n)
         else finish_unnamed n
                (deg_min (if n ! 4 = CHR ''S'' then - 1 else 1) (slice 0 2 n) (slice 2 4 n) 60)
                (deg_min (if n ! 11 = CHR ''W'' then - 1 else 1) (slice 6 9 n) (slice 9 11 n) 60))
      else if fixlen = 15 then
        (if \<not> (n ! 6 \<in> set ''NS'' \<and> n ! 14 \<in> set ''EW''
                \<and> n ! 4 = CHR ''.'' \<and> n ! 12 = CHR ''.''
                \<and> str_isdigit (slice 0 4 n) \<and> isdigit (n ! 5)
                \<and> str_isdigit (slice 7 12 n) \<and> isdigit (n ! 13))
         then Inl (UnnamedFormatError n)
         else finish_unnamed n
                (deg_min (if n ! 6 = CHR ''S'' then - 1 else 1) (slice 0 2 n) (slice 2 6 n) 60)
                (deg_min (if n ! 14 = CHR ''W'' then - 1 else 1) (slice 7 10 n) (slice 10 14 n) 60))
      else if fixlen = 11 then
        (if \<not> (n ! 4 \<in> set ''NS'' \<and> n ! 10 \<in> set ''EW''
                \<and> str_isdigit (slice 0 4 n) \<and> str_isdigit (slice 5 10 n))
         then Inl (UnnamedFormatError n)
         else finish_unnamed n
                (deg_min (if n ! 4 = CHR ''S'' then - 1 else 1) (slice 0 2 n) (slice 2 4 n) 60)
                (deg_min (if n ! 10 = CHR ''W'' then - 1 else 1) (slice 5 8 n) (slice 8 10 n) 60))
      else if fixlen = 5 then
        (if \<not> (n ! 0 = CHR ''H'' \<and> str_isdigit (slice 1 5 n))
         then Inl (UnnamedFormatError n)
         else finish_unnamed n
                (case float_dec (slice 1 3 n) of None \<Rightarrow> Inl ValueError
                 | Some x \<Rightarrow> Inr (1 * (x + 0.5)))
                (case float_dec (slice 3 5 n) of None \<Rightarrow> Inl ValueError
                 | Some y \<Rightarrow> Inr (- 1 * y)))
      else if fixlen = 7 then
        (if \<not> (n ! 2 \<in> set ''NS'' \<and> n ! 6 \<in> set ''EW''
                \<and> str_isdigit (slice 0 2 n) \<and> str_isdigit (slice 3 6 n))
         then Inl (UnnamedFormatError n)
         else finish_unnamed n
                (case float_dec (slice 0 2 n) of None \<Rightarrow> Inl ValueError
                 | Some x \<Rightarrow> Inr ((if n ! 2 = CHR ''S'' then - 1 else 1) * x))
                (case float_dec (slice 3 6 n) of None \<Rightarrow> Inl ValueError
                 | Some y \<Rightarrow> Inr ((if n ! 6 = CHR ''W'' then - 1 else 1) * y)))
      else Inl (UnnamedFormatError n))"


subsection \<open>Objects\<close>

text \<open>
  \<open>WayPoint\<close> defines no \<open>__eq__\<close>, so \<open>==\<close> between two waypoints is object identity, and
  no \<open>__bool__\<close>, so a waypoint is true and only \<open>None\<close> is false. An object is its
  identity with its attributes: \<open>Loaded f k\<close> is the object built from line \<open>k\<close> of the
  reference file \<open>f\<close>, \<open>Decoded i\<close> the unnamed waypoint built for token \<open>i\<close> of a flight
  plan.
\<close>

datatype objid = Loaded string nat | Decoded nat

type_synonym obj = "objid \<times> waypoint"

definition py_eq :: "obj \<Rightarrow> obj option \<Rightarrow> bool" where
  "py_eq w other = (case other of None \<Rightarrow> False | Some w2 \<Rightarrow> fst w = fst w2)"

text \<open>\<open>copy.copy(w)\<close>: a new object with the attributes of \<open>w\<close>.\<close>

definition copy :: "obj \<Rightarrow> waypoint" where
  "copy w = snd w"

text \<open>
  \<open>distTo\<close>: the distance \<open>s12\<close> of \<open>geod.Inverse\<close>, the geodesic routine of an external
  library, a parameter \<open>geod\<close> here. Reading \<open>_wpt2.lat\<close> raises \<open>AttributeError\<close> when
  \<open>_wpt2\<close> is \<open>None\<close>.
\<close>

definition s12 :: "(real \<Rightarrow> real \<Rightarrow> real \<Rightarrow> real \<Rightarrow> real) \<Rightarrow> obj \<Rightarrow> obj \<Rightarrow> real" where
  "s12 geod w w2 = geod (lat (snd w)) (lon (snd w)) (lat (snd w2)) (lon (snd w2))"

definition distTo :: "(real \<Rightarrow> real \<Rightarrow> real \<Rightarrow> real \<Rightarrow> real) \<Rightarrow> obj \<Rightarrow> obj option \<Rightarrow> error + real" where
  "distTo geod w wpt2 = (case wpt2 of None \<Rightarrow> Inl AttributeError | Some w2 \<Rightarrow> Inr (s12 geod w w2))"

section \<open>Lists\<close>

text \<open>\<open>xs.index(x)\<close>: the first position of \<open>x\<close>; \<open>None\<close> is the \<open>ValueError\<close>.\<close>

fun index :: "'a list \<Rightarrow> 'a \<Rightarrow> nat option" where
  "index [] x = None"
| "index (y # ys) x = (if y = x then Some 0 else map_option Suc (index ys x))"

text \<open>\<open>xs[i]\<close>: a negative index counts from the end.\<close>

definition getitem :: "'a list \<Rightarrow> int \<Rightarrow> error + 'a" where
  "getitem xs i =
     (if 0 \<le> i \<and> i < int (length xs) then Inr (xs ! nat i)
      else if i < 0 \<and> - int (length xs) \<le> i then Inr (xs ! nat (int (length xs) + i))
      else Inl IndexError)"

text \<open>\<open>range(start, stop, step)\<close> for a non-zero step.\<close>

function py_range :: "int \<Rightarrow> int \<Rightarrow> int \<Rightarrow> int list" where
  "py_range i stop step =
     (if (0 < step \<and> i < stop) \<or> (step < 0 \<and> stop < i)
      then i # py_range (i + step) stop step else [])"
  by pat_completeness auto
termination
  by (relation "measure (\<lambda>(i, stop, step). nat (if 0 < step then stop - i else i - stop))") auto

text \<open>\<open>min(xs)\<close>: the first of the smallest elements; \<open>ValueError\<close> on the empty list.\<close>

definition py_min :: "real list \<Rightarrow> error + real" where
  "py_min xs =
     (case xs of [] \<Rightarrow> Inl ValueError
      | x # rest \<Rightarrow> Inr (foldl (\<lambda>m y. if y < m then y else m) x rest))"

text \<open>\<open>"sub" in s\<close>.\<close>

primrec contains :: "string \<Rightarrow> string \<Rightarrow> bool" where
  "contains [] sub = (sub = [])"
| "contains (c # cs) sub = (take (length sub) (c # cs) = sub \<or> contains cs sub)"

section \<open>Airways\<close>

record route =
  r_name :: string
  r_wpts :: "obj list"
  r_wptnames :: "string list"

definition Route :: "string \<Rightarrow> route" where
  "Route n = \<lparr>r_name = n, r_wpts = [], r_wptnames = []\<rparr>"

definition addWaypoint :: "route \<Rightarrow> obj \<Rightarrow> route" where
  "addWaypoint r w = r\<lparr>r_wpts := r_wpts r @ [w], r_wptnames := r_wptnames r @ [name (snd w)]\<rparr>"

text \<open>The loop of \<open>getWaypoints\<close>: \<open>self._wpts[i]\<close> for each \<open>i\<close> of the range, in order.\<close>

fun collect :: "obj list \<Rightarrow> int list \<Rightarrow> error + obj list" where
  "collect ws [] = Inr []"
| "collect ws (i # js) =
     (case getitem ws i of Inl e \<Rightarrow> Inl e
      | Inr w \<Rightarrow> (case collect ws js of Inl e \<Rightarrow> Inl e | Inr r \<Rightarrow> Inr (w # r)))"

definition getWaypoints :: "route \<Rightarrow> string \<Rightarrow> string \<Rightarrow> error + obj list" where
  "getWaypoints r entry exit =
     (case index (r_wptnames r) entry of
        None \<Rightarrow> Inl (NotOnAirwayError entry (r_name r))
      | Some entry_index \<Rightarrow>
          (case index (r_wptnames r) exit of
             None \<Rightarrow> Inl (NotOnAirwayError exit (r_name r))
           | Some exit_index \<Rightarrow>
               (let step = (if exit_index < entry_index then - 1 else 1)
                in collect (r_wpts r) (py_range (int entry_index) (int exit_index) step))))"


section \<open>The database\<close>

text \<open>
  An \<open>AIRACcycle\<close> holds the cycle number and the two dates of a header line
  (\<open>date_str\<close>, a formatting of the two dates, is left out: nothing reads it).
  \<open>__eq__\<close> compares the cycle numbers only.
\<close>

type_synonym datetime = "nat \<times> nat \<times> nat"

record AIRACcycle =
  cycle :: int
  date_begin :: datetime
  date_end :: datetime

definition airac_eq :: "AIRACcycle \<Rightarrow> AIRACcycle \<Rightarrow> bool" where
  "airac_eq a other = (cycle a = cycle other)"

record navdb =
  airac :: "AIRACcycle option"
  awys :: "string \<rightharpoonup> route"
  wpts :: "string \<rightharpoonup> obj list"
  nonavaids :: nat
  nofixes :: nat
  norwys :: nat
  noarpts :: nat
  noawys :: nat

subsection \<open>getClosest\<close>

text \<open>
  \<open>_close_wpt\<close> is an object where the distances are computed, so \<open>distTo\<close> returns
  there. The candidate list of a name can be empty only in a database that the loader
  did not build; \<open>min\<close> then raises.
\<close>

definition getClosest ::
  "(real \<Rightarrow> real \<Rightarrow> real \<Rightarrow> real \<Rightarrow> real) \<Rightarrow> navdb \<Rightarrow> string \<Rightarrow> obj option \<Rightarrow> error + obj" where
  "getClosest geod db nm close_wpt =
     (case wpts db nm of
        None \<Rightarrow> Inl (ElementNotFoundError nm)
      | Some wpt_pot \<Rightarrow>
          if length wpt_pot = 1 then Inr (wpt_pot ! 0)
          else
            (case close_wpt of
               None \<Rightarrow> Inl (ElementAmbiguousError nm)
             | Some c \<Rightarrow>
                 (let wpt_dst = map (\<lambda>w. s12 geod w c) wpt_pot
                  in case py_min wpt_dst of
                       Inl e \<Rightarrow> Inl e
                     | Inr m \<Rightarrow>
                         (case index wpt_dst m of
                            None \<Rightarrow> Inl ValueError
                          | Some k \<Rightarrow> Inr (wpt_pot ! k)))))"

subsection \<open>getFPLelemtype\<close>

text \<open>
  The result is the string the method returns; \<open>None\<close> is Python's \<open>None\<close>, returned
  when the chain is left without a \<open>return\<close>. Each index read stands behind the length
  test of its condition.
\<close>

definition getFPLelemtype :: "navdb \<Rightarrow> string \<Rightarrow> string option" where
  "getFPLelemtype db elem =
     (let no_aph = length (filter isalpha elem);
          no_dig = length (filter isdigit elem);
          no_dir = count elem CHR ''N'' + count elem CHR ''S''
                 + count elem CHR ''W'' + count elem CHR ''E'';
          no_tot = length elem
      in if elem = ''DCT'' then Some ''dct''
         else if no_dir = 2 \<and> no_tot \<in> set [7, 11, 12, 15, 16] \<and> 5 \<le> no_dig then Some ''ufx''
         else if no_tot = 5 \<and> elem ! 0 = CHR ''H'' \<and> no_dig = 4 then Some ''ufx''
         else if no_tot = 4 \<and> contains (slice 0 3 elem) ''NAT'' then
           (if isalpha (elem ! 3) then Some ''nat'' else None)
         else if no_tot = 4 \<and> no_dig = 0 then Some ''apt''
         else if no_tot \<in> set [7, 8] \<and> elem ! 4 = CHR ''R'' \<and> str_isdigit (slice 5 7 elem)
           then Some ''rwy''
         else if no_aph = 1 \<and> 4 \<le> no_dig then Some ''fix''
         else if str_isalpha elem \<and> no_tot < 6 then Some ''fix''
         else if awys db elem \<noteq> None then Some ''awy''
         else if wpts db elem \<noteq> None then Some ''fix''
         else Some ''prc'')"

subsection \<open>expandFPL\<close>

text \<open>The first loop: every token is checked before any is resolved.\<close>

fun validate :: "string list \<Rightarrow> error + unit" where
  "validate [] = Inr ()"
| "validate (elem # rest) =
     (if \<not> str_isalnum (remove_char CHR ''.'' (remove_char CHR ''/'' elem))
         \<or> 1 < count elem CHR ''/''
      then Inl (IllegalCharacterError elem) else validate rest)"

text \<open>The variables the second loop updates.\<close>

record fpl_state =
  out_wpts :: "obj list"
  last_wpt :: "obj option"
  apts_found :: nat

text \<open>\<open>if wpt: wpts.append(wpt); last_wpt = wpt\<close>.\<close>

definition append_wpt :: "fpl_state \<Rightarrow> obj option \<Rightarrow> fpl_state" where
  "append_wpt st wpt =
     (case wpt of None \<Rightarrow> st
      | Some w \<Rightarrow> st\<lparr>out_wpts := out_wpts st @ [w], last_wpt := Some w\<rparr>)"

text \<open>\<open>self._wpts[key][0]\<close> outside a \<open>try\<close>.\<close>

definition first_wpt :: "navdb \<Rightarrow> string \<Rightarrow> error + obj" where
  "first_wpt db key =
     (case wpts db key of None \<Rightarrow> Inl KeyError
      | Some [] \<Rightarrow> Inl IndexError
      | Some (w # _) \<Rightarrow> Inr w)"

definition awy_elem :: "navdb \<Rightarrow> string list \<Rightarrow> nat \<Rightarrow> fpl_state \<Rightarrow> error + fpl_state" where
  "awy_elem db fpl_arr i st =
     (let awy_start = fpl_arr ! (i - 1); awy_end = fpl_arr ! (i + 1); awy_name = fpl_arr ! i
      in case awys db awy_name of
           None \<Rightarrow> Inl (ElementNotFoundError awy_name)
         | Some awy \<Rightarrow>
             (case getWaypoints awy awy_start awy_end of
                Inl e \<Rightarrow> Inl e
              | Inr awy_wpts \<Rightarrow>
                  if awy_wpts = [] then Inl IndexError
                  else Inr (st\<lparr>out_wpts := out_wpts st @ drop 1 awy_wpts,
                               last_wpt := Some (last awy_wpts)\<rparr>)))"

text \<open>
  The two tests of the procedure branch, in the source's order: the second one
  overwrites \<open>wpt\<close> when it fires.
\<close>

definition prc_elem ::
  "(real \<Rightarrow> real \<Rightarrow> real \<Rightarrow> real \<Rightarrow> real) \<Rightarrow> navdb \<Rightarrow> string list \<Rightarrow> nat \<Rightarrow> fpl_state \<Rightarrow> error + fpl_state" where
  "prc_elem geod db fpl_arr i st =
     (let pelem = getFPLelemtype db (fpl_arr ! (i - 1));
          nelem = getFPLelemtype db (fpl_arr ! (i + 1));
          sid = (if nelem = Some ''fix'' \<and> pelem \<in> set [Some ''rwy'', Some ''arp''] then
                   (case first_wpt db (slice 0 4 (fpl_arr ! (i - 1))) of
                      Inl e \<Rightarrow> Inl e
                    | Inr ref \<Rightarrow>
                        (case getClosest geod db (fpl_arr ! (i + 1)) (Some ref) of
                           Inl e \<Rightarrow> Inl e | Inr w \<Rightarrow> Inr (Some w)))
                 else Inr None)
      in case sid of
           Inl e \<Rightarrow> Inl e
         | Inr wpt \<Rightarrow>
             (let star = (if pelem = Some ''fix'' \<and> nelem \<in> set [Some ''rwy'', Some ''arp''] then
                            (case first_wpt db (slice 0 4 (fpl_arr ! (i + 1))) of
                               Inl e \<Rightarrow> Inl e
                             | Inr ref \<Rightarrow>
                                 (case getClosest geod db (fpl_arr ! (i - 1)) (Some ref) of
                                    Inl e \<Rightarrow> Inl e
                                  | Inr w \<Rightarrow> Inr (if py_eq w (last_wpt st) then None else Some w)))
                          else Inr wpt)
              in case star of Inl e \<Rightarrow> Inl e | Inr wpt' \<Rightarrow> Inr (append_wpt st wpt')))"

text \<open>The bare \<open>except\<close> turns a missing name and an empty candidate list into the same error.\<close>

definition apt_elem :: "navdb \<Rightarrow> string \<Rightarrow> fpl_state \<Rightarrow> error + fpl_state" where
  "apt_elem db elem st =
     (if apts_found st < 2 then
        (case wpts db elem of
           Some (arp # _) \<Rightarrow>
             Inr (st\<lparr>out_wpts := out_wpts st @ [arp], apts_found := apts_found st + 1,
                     last_wpt := Some arp\<rparr>)
         | _ \<Rightarrow> Inl (ElementNotFoundError elem))
      else Inr st)"

definition ufx_elem ::
  "(real \<Rightarrow> real \<Rightarrow> real \<Rightarrow> real \<Rightarrow> real) \<Rightarrow> string \<Rightarrow> nat \<Rightarrow> fpl_state \<Rightarrow> error + fpl_state" where
  "ufx_elem geod elem i st =
     (case UnnamedWaypoint elem of
        Inl e \<Rightarrow> Inl e
      | Inr u \<Rightarrow>
          (let wpt = (Decoded i, u)
           in case distTo geod wpt (last_wpt st) of
                Inl e \<Rightarrow> Inl e
              | Inr d \<Rightarrow> Inr (append_wpt st (if d < 0.1 then None else Some wpt))))"

definition fix_elem ::
  "(real \<Rightarrow> real \<Rightarrow> real \<Rightarrow> real \<Rightarrow> real) \<Rightarrow> navdb \<Rightarrow> string \<Rightarrow> fpl_state \<Rightarrow> error + fpl_state" where
  "fix_elem geod db elem st =
     (case getClosest geod db elem (last_wpt st) of
        Inl e \<Rightarrow> Inl e
      | Inr w \<Rightarrow> Inr (append_wpt st (if py_eq w (last_wpt st) then None else Some w)))"

text \<open>One pass of the body of \<open>for i in range(fpl_sz)\<close>.\<close>

definition expand_step ::
  "(real \<Rightarrow> real \<Rightarrow> real \<Rightarrow> real \<Rightarrow> real) \<Rightarrow> navdb \<Rightarrow> string list \<Rightarrow> nat \<Rightarrow> fpl_state \<Rightarrow> error + fpl_state" where
  "expand_step geod db fpl_arr i st =
     (let fpl_sz = length fpl_arr;
          elem = fpl_arr ! i;
          elem_type = getFPLelemtype db elem
      in if elem_type = Some ''awy'' \<and> 1 \<le> i \<and> i + 1 < fpl_sz then awy_elem db fpl_arr i st
         else if elem_type = Some ''prc'' \<and> 1 \<le> i \<and> i + 1 < fpl_sz then prc_elem geod db fpl_arr i st
         else if elem_type = Some ''apt'' \<or> elem_type = Some ''rwy'' then apt_elem db elem st
         else if elem_type = Some ''ufx'' then ufx_elem geod elem i st
         else if elem_type = Some ''fix'' then fix_elem geod db elem st
         else Inr st)"

fun expand_loop ::
  "(real \<Rightarrow> real \<Rightarrow> real \<Rightarrow> real \<Rightarrow> real) \<Rightarrow> navdb \<Rightarrow> string list \<Rightarrow> nat list \<Rightarrow> fpl_state \<Rightarrow> error + fpl_state" where
  "expand_loop geod db fpl_arr [] st = Inr st"
| "expand_loop geod db fpl_arr (i # js) st =
     (case expand_step geod db fpl_arr i st of
        Inl e \<Rightarrow> Inl e
      | Inr st' \<Rightarrow> expand_loop geod db fpl_arr js st')"

definition expandFPL ::
  "(real \<Rightarrow> real \<Rightarrow> real \<Rightarrow> real \<Rightarrow> real) \<Rightarrow> navdb \<Rightarrow> string \<Rightarrow> error + waypoint list" where
  "expandFPL geod db fpl =
     (let fpl_arr = split fpl;
          fpl_sz = length fpl_arr
      in case validate fpl_arr of
           Inl e \<Rightarrow> Inl e
         | Inr _ \<Rightarrow>
             (case expand_loop geod db fpl_arr [0..<fpl_sz]
                     \<lparr>out_wpts = [], last_wpt = None, apts_found = 0\<rparr> of
                Inl e \<Rightarrow> Inl e
              | Inr st \<Rightarrow> Inr (map copy (out_wpts st))))"

section \<open>The loader\<close>

text \<open>
  The five reference files, each as the list of lines that iterating over the open file
  yields. The conversions of the Python library are parameters: \<open>pfloat\<close> is \<open>float\<close>,
  \<open>pint\<close> is \<open>int\<close> and \<open>strptime\<close> is \<open>datetime.strptime\<close> with the format
  \<open>%d/%b/%Y\<close>; \<open>None\<close> is their \<open>ValueError\<close>.
\<close>

record files =
  wpNavAID :: "string list"
  wpNavFIX :: "string list"
  wpNavAPT :: "string list"
  airports :: "string list"
  wpNavRTE :: "string list"

definition new_AIRACcycle ::
  "(string \<Rightarrow> int option) \<Rightarrow> (string \<Rightarrow> datetime option) \<Rightarrow> string \<Rightarrow> error + AIRACcycle" where
  "new_AIRACcycle pint strptime str =
     (if \<not> contains (slice 1 6 str) ''AIRAC'' then Inl AssertionError
      else case pint (slice 15 19 str) of
             None \<Rightarrow> Inl ValueError
           | Some c \<Rightarrow>
               (case strptime (slice 21 32 str) of
                  None \<Rightarrow> Inl ValueError
                | Some b \<Rightarrow>
                    (case strptime (slice 35 46 str) of
                       None \<Rightarrow> Inl ValueError
                     | Some e \<Rightarrow> Inr \<lparr>cycle = c, date_begin = b, date_end = e\<rparr>)))"

text \<open>
  What each of the five loops does with a line that starts with \<open>;\<close>. \<open>label\<close> is the
  argument its \<open>raise WrongAIRACcycleError(...)\<close> passes.
\<close>

definition comment_line ::
  "(string \<Rightarrow> int option) \<Rightarrow> (string \<Rightarrow> datetime option) \<Rightarrow> string \<Rightarrow> AIRACcycle option \<Rightarrow> string
     \<Rightarrow> error + AIRACcycle option" where
  "comment_line pint strptime label cur l =
     (if contains (slice 1 6 l) ''AIRAC'' then
        (case cur of
           None \<Rightarrow>
             (case new_AIRACcycle pint strptime l of Inl e \<Rightarrow> Inl e | Inr a \<Rightarrow> Inr (Some a))
         | Some a0 \<Rightarrow>
             (case new_AIRACcycle pint strptime l of
                Inl e \<Rightarrow> Inl e
              | Inr a \<Rightarrow> if \<not> airac_eq a a0 then Inl (WrongAIRACcycleError label) else Inr cur))
      else Inr cur)"

text \<open>\<open>wpts.setdefault(name, []).append(w)\<close>.\<close>

definition add_wpt :: "(string \<rightharpoonup> obj list) \<Rightarrow> string \<Rightarrow> obj \<Rightarrow> (string \<rightharpoonup> obj list)" where
  "add_wpt m n w = m(n \<mapsto> (case m n of None \<Rightarrow> [] | Some ws \<Rightarrow> ws) @ [w])"

text \<open>The data lines of the four point files.\<close>

definition navaid_line :: "(string \<Rightarrow> real option) \<Rightarrow> string \<Rightarrow> error + waypoint" where
  "navaid_line pfloat l =
     (let nm = rstrip (slice 24 28 l)
      in case pfloat (slice 33 43 l) of None \<Rightarrow> Inl ValueError
         | Some la \<Rightarrow> (case pfloat (slice 43 54 l) of None \<Rightarrow> Inl ValueError
             | Some lo \<Rightarrow> Inr (NavAid nm la lo (rstrip (slice 29 33 l)) (rstrip (slice 0 24 l)))))"

definition fix_line :: "(string \<Rightarrow> real option) \<Rightarrow> string \<Rightarrow> error + waypoint" where
  "fix_line pfloat l =
     (let nm = rstrip (slice 0 5 l)
      in case pfloat (slice 29 39 l) of None \<Rightarrow> Inl ValueError
         | Some la \<Rightarrow> (case pfloat (drop 39 l) of None \<Rightarrow> Inl ValueError
             | Some lo \<Rightarrow> Inr (WayPoint nm la lo)))"

definition rwy_line :: "(string \<Rightarrow> real option) \<Rightarrow> string \<Rightarrow> error + waypoint" where
  "rwy_line pfloat l =
     (let nm = strip (slice 24 28 l @ ''R'' @ slice 28 31 l)
      in case pfloat (slice 39 49 l) of None \<Rightarrow> Inl ValueError
         | Some la \<Rightarrow> (case pfloat (slice 49 60 l) of None \<Rightarrow> Inl ValueError
             | Some lo \<Rightarrow> Inr (Runway nm la lo (strip (slice 0 24 l)))))"

definition arpt_line :: "(string \<Rightarrow> real option) \<Rightarrow> string \<Rightarrow> error + waypoint" where
  "arpt_line pfloat l =
     (let nm = slice 0 4 l
      in case pfloat (slice 4 14 l) of None \<Rightarrow> Inl ValueError
         | Some la \<Rightarrow> (case pfloat (drop 14 l) of None \<Rightarrow> Inl ValueError
             | Some lo \<Rightarrow> Inr (Airport nm la lo [])))"

text \<open>
  The loop over one point file, from line \<open>k\<close> on: \<open>fname\<close> is the file read, \<open>label\<close>
  the file its cycle error names, \<open>mk\<close> its data line. The state is \<open>self.airac\<close>,
  \<open>wpts\<close> and \<open>nold\<close>. \<open>l[0]\<close> raises on an empty line.
\<close>

fun load_points ::
  "(string \<Rightarrow> int option) \<Rightarrow> (string \<Rightarrow> datetime option) \<Rightarrow> string \<Rightarrow> string
     \<Rightarrow> (string \<Rightarrow> error + waypoint) \<Rightarrow> nat \<Rightarrow> string list
     \<Rightarrow> AIRACcycle option \<times> (string \<rightharpoonup> obj list) \<times> nat
     \<Rightarrow> error + AIRACcycle option \<times> (string \<rightharpoonup> obj list) \<times> nat" where
  "load_points pint strptime fname label mk k [] st = Inr st"
| "load_points pint strptime fname label mk k (l # ls) (cur, m, nold) =
     (if l = [] then Inl IndexError
      else if l ! 0 = CHR '';'' then
        (case comment_line pint strptime label cur l of
           Inl e \<Rightarrow> Inl e
         | Inr cur' \<Rightarrow> load_points pint strptime fname label mk (Suc k) ls (cur', m, nold))
      else
        (case mk l of
           Inl e \<Rightarrow> Inl e
         | Inr w \<Rightarrow>
             load_points pint strptime fname label mk (Suc k) ls
               (cur, add_wpt m (name w) (Loaded fname k, w), nold + 1)))"

text \<open>
  The loop over the airways file. The state is \<open>self.airac\<close>, \<open>awys\<close>, \<open>cawy\<close> and
  \<open>nold\<close>; a \<open>Route\<close> is true, so \<open>not cawy\<close> holds for \<open>None\<close> only.
\<close>

fun load_airways ::
  "(string \<Rightarrow> real option) \<Rightarrow> (string \<Rightarrow> int option) \<Rightarrow> (string \<Rightarrow> datetime option) \<Rightarrow> nat \<Rightarrow> string list
     \<Rightarrow> AIRACcycle option \<times> (string \<rightharpoonup> route) \<times> route option \<times> nat
     \<Rightarrow> error + AIRACcycle option \<times> (string \<rightharpoonup> route) \<times> route option \<times> nat" where
  "load_airways pfloat pint strptime k [] st = Inr st"
| "load_airways pfloat pint strptime k (l # ls) (cur, aw, cawy, nold) =
     (if l = [] then Inl IndexError
      else if l ! 0 = CHR '';'' then
        (case comment_line pint strptime ''wpNavRTE.txt'' cur l of
           Inl e \<Rightarrow> Inl e
         | Inr cur' \<Rightarrow> load_airways pfloat pint strptime (Suc k) ls (cur', aw, cawy, nold))
      else
        (case split l of
           [nm, nr, wptname, lats, lons] \<Rightarrow>
             (let cawy1 = (case cawy of None \<Rightarrow> Route nm | Some c \<Rightarrow> c)
              in case pfloat lats of None \<Rightarrow> Inl ValueError
                 | Some la \<Rightarrow> (case pfloat lons of None \<Rightarrow> Inl ValueError
                     | Some lo \<Rightarrow>
                         (let w = (Loaded ''wpNavRTE.txt'' k, WayPoint wptname la lo)
                          in if r_name cawy1 = nm then
                               load_airways pfloat pint strptime (Suc k) ls
                                 (cur, aw, Some (addWaypoint cawy1 w), nold)
                             else
                               load_airways pfloat pint strptime (Suc k) ls
                                 (cur, aw(r_name cawy1 \<mapsto> cawy1),
                                  Some (addWaypoint (Route nm) w), nold + 1))))
         | _ \<Rightarrow> Inl ValueError))"

text \<open>
  \<open>_load\<close> on a database whose \<open>airac\<close> is \<open>None\<close>, as \<open>__init__\<close> and \<open>reload\<close> call it.
  The \<open>else\<close> of the last \<open>for\<close> runs when the lines are exhausted and reads
  \<open>cawy.name\<close>.
\<close>

definition load ::
  "(string \<Rightarrow> real option) \<Rightarrow> (string \<Rightarrow> int option) \<Rightarrow> (string \<Rightarrow> datetime option) \<Rightarrow> files
     \<Rightarrow> error + navdb" where
  "load pfloat pint strptime fs =
     (case load_points pint strptime ''wpNavAID.txt'' ''wpNavAID.txt'' (navaid_line pfloat) 0
             (wpNavAID fs) (None, Map.empty, 0) of
        Inl e \<Rightarrow> Inl e
      | Inr (a1, m1, n1) \<Rightarrow>
      (case load_points pint strptime ''wpNavFIX.txt'' ''wpNavFIX.txt'' (fix_line pfloat) 0
              (wpNavFIX fs) (a1, m1, 0) of
        Inl e \<Rightarrow> Inl e
      | Inr (a2, m2, n2) \<Rightarrow>
      (case load_points pint strptime ''wpNavAPT.txt'' ''wpNavFIX.txt'' (rwy_line pfloat) 0
              (wpNavAPT fs) (a2, m2, 0) of
        Inl e \<Rightarrow> Inl e
      | Inr (a3, m3, n3) \<Rightarrow>
      (case load_points pint strptime ''airports.dat'' ''airports.dat'' (arpt_line pfloat) 0
              (airports fs) (a3, m3, 0) of
        Inl e \<Rightarrow> Inl e
      | Inr (a4, m4, n4) \<Rightarrow>
      (case load_airways pfloat pint strptime 0 (wpNavRTE fs) (a4, Map.empty, None, 0) of
        Inl e \<Rightarrow> Inl e
      | Inr (a5, aw, cawy, n5) \<Rightarrow>
          (case cawy of
             None \<Rightarrow> Inl AttributeError
           | Some c \<Rightarrow>
               Inr \<lparr>airac = a5, awys = aw(r_name c \<mapsto> c), wpts = m4,
                    nonavaids = n1, nofixes = n2, norwys = n3, noarpts = n4,
                    noawys = n5 + 1\<rparr>))))))"

section \<open>A small database\<close>

text \<open>
  Two airports, a fix, a navaid name with two candidates and one airway of four
  waypoints, with a flat stand-in for the geodesic distance. They are the concrete
  inputs at which the theorems below are instantiated.
\<close>

definition flat :: "real \<Rightarrow> real \<Rightarrow> real \<Rightarrow> real \<Rightarrow> real" where
  "flat la lo la2 lo2 = \<bar>la - la2\<bar> + \<bar>lo - lo2\<bar>"

definition egll :: obj where
  "egll = (Loaded ''airports.dat'' 0, Airport ''EGLL'' 51 0 [])"

definition egkk :: obj where
  "egkk = (Loaded ''airports.dat'' 1, Airport ''EGKK'' 50 0 [])"

definition bogna :: obj where
  "bogna = (Loaded ''wpNavFIX.txt'' 0, WayPoint ''BOGNA'' 50 1)"

definition mid1 :: obj where
  "mid1 = (Loaded ''wpNavAID.txt'' 0, NavAid ''MID'' 10 20 ''VOR'' ''MIDHURST FAR'')"

definition mid2 :: obj where
  "mid2 = (Loaded ''wpNavAID.txt'' 1, NavAid ''MID'' 51 1 ''VOR'' ''MIDHURST'')"

definition mid3 :: obj where
  "mid3 = (Loaded ''wpNavAID.txt'' 2, NavAid ''MID'' 51 (- 1) ''NDB'' ''MIDHURST TWIN'')"

definition wa :: obj where
  "wa = (Loaded ''wpNavRTE.txt'' 0, WayPoint ''A'' 1 1)"

definition wb :: obj where
  "wb = (Loaded ''wpNavRTE.txt'' 1, WayPoint ''B'' 2 2)"

definition wc :: obj where
  "wc = (Loaded ''wpNavRTE.txt'' 2, WayPoint ''C'' 3 3)"

definition wd :: obj where
  "wd = (Loaded ''wpNavRTE.txt'' 3, WayPoint ''D'' 4 4)"

definition abcd :: route where
  "abcd = addWaypoint (addWaypoint (addWaypoint (addWaypoint (Route ''L9'') wa) wb) wc) wd"

definition example_db :: navdb where
  "example_db =
     \<lparr>airac = None,
      awys = [''L9'' \<mapsto> abcd],
      wpts = [''EGLL'' \<mapsto> [egll], ''EGKK'' \<mapsto> [egkk], ''BOGNA'' \<mapsto> [bogna],
              ''MID'' \<mapsto> [mid1, mid2, mid3]],
      nonavaids = 3, nofixes = 1, norwys = 0, noarpts = 2, noawys = 1\<rparr>"

text \<open>
  Stand-ins for \<open>int\<close> and \<open>strptime\<close> that read the digits and the dates of the
  two header lines below, which carry different cycle numbers.
\<close>

definition int_dec :: "string \<Rightarrow> int option" where
  "int_dec s = (if s \<noteq> [] \<and> list_all isdecimal s then Some (int (nat_of_digits s)) else None)"

definition date_dec :: "string \<Rightarrow> datetime option" where
  "date_dec s =
     (if length s = 11 \<and> s ! 2 = CHR ''/'' \<and> s ! 6 = CHR ''/''
         \<and> list_all isdecimal (slice 0 2 s) \<and> list_all isdecimal (slice 7 11 s)
      then (case index [''JAN'', ''FEB'', ''MAR'', ''APR'', ''MAY'', ''JUN'',
                        ''JUL'', ''AUG'', ''SEP'', ''OCT'', ''NOV'', ''DEC''] (slice 3 6 s) of
              None \<Rightarrow> None
            | Some m \<Rightarrow> Some (nat_of_digits (slice 7 11 s), Suc m, nat_of_digits (slice 0 2 s)))
      else None)"

definition header_2301 :: string where
  "header_2301 = '';AIRAC Cycle : 2301 (26/JAN/2023 - 22/FEB/2023) - Ver.1''"

definition header_2302 :: string where
  "header_2302 = '';AIRAC Cycle : 2302 (23/FEB/2023 - 22/MAR/2023) - Ver.1''"

section \<open>Notions the statements use\<close>

text \<open>
  A token that the first loop of \<open>expandFPL\<close> rejects, in words: it holds a character
  that is neither alphanumeric nor \<open>.\<close> nor \<open>/\<close>, or it holds no alphanumeric character
  at all, or it holds more than one \<open>/\<close>.
\<close>

definition bad_token :: "string \<Rightarrow> bool" where
  "bad_token e =
     (list_ex (\<lambda>c. \<not> isalnum c \<and> c \<noteq> CHR ''.'' \<and> c \<noteq> CHR ''/'') e
      \<or> \<not> list_ex isalnum e
      \<or> 1 < count e CHR ''/'')"

text \<open>The state of the second loop of \<open>expandFPL\<close> after its first \<open>k\<close> passes.\<close>

definition expand_upto ::
  "(real \<Rightarrow> real \<Rightarrow> real \<Rightarrow> real \<Rightarrow> real) \<Rightarrow> navdb \<Rightarrow> string \<Rightarrow> nat \<Rightarrow> error + fpl_state" where
  "expand_upto geod db fpl k =
     expand_loop geod db (split fpl) [0..<k] \<lparr>out_wpts = [], last_wpt = None, apts_found = 0\<rparr>"

section \<open>Characters: facts\<close>

lemmas chr_defs = codepoint_def isalpha_def isdecimal_def isdigit_def isnumeric_def
  isalnum_def isspace_def

section \<open>Lists: facts\<close>

lemma index_Some_iff:
  "index xs x = Some k \<longleftrightarrow> k < length xs \<and> xs ! k = x \<and> x \<notin> set (take k xs)"
proof (induction xs arbitrary: k)
  case Nil
  then show ?case by simp
next
  case (Cons y ys)
  then show ?case by (cases k) auto
qed

lemma index_mem: "x \<in> set xs \<Longrightarrow> \<exists>k. index xs x = Some k"
  by (induction xs) auto

lemma foldl_min: "foldl (\<lambda>m y. if y < m then y else m) (x::real) xs = Min (set (x # xs))"
proof -
  have f: "(\<lambda>m y. if y < m then y else m) = (\<lambda>m y. min y (m::real))"
    by (auto simp: min_def fun_eq_iff)
  show ?thesis unfolding f by (simp add: foldl_conv_fold Min.set_eq_fold del: set_simps)
qed

lemma py_min_Min: "xs \<noteq> [] \<Longrightarrow> py_min xs = Inr (Min (set xs))"
  by (cases xs) (simp_all add: py_min_def foldl_min del: foldl_Cons)

text \<open>The position \<open>index\<close> finds for the minimum: no earlier element is as small.\<close>

lemma index_Min:
  fixes ds :: "real list"
  assumes ne: "ds \<noteq> []"
  shows "\<exists>k. index ds (Min (set ds)) = Some k \<and> k < length ds
           \<and> (\<forall>j<length ds. ds ! k \<le> ds ! j) \<and> (\<forall>j<k. ds ! k < ds ! j)"
proof -
  define m where "m = Min (set ds)"
  have fin: "finite (set ds)" by simp
  have mem: "m \<in> set ds" unfolding m_def using ne fin by (simp add: Min_in)
  obtain k where k: "index ds m = Some k" using index_mem[OF mem] by blast
  have kl: "k < length ds" and kv: "ds ! k = m" and kf: "m \<notin> set (take k ds)"
    using k unfolding index_Some_iff by blast+
  have le: "\<forall>j<length ds. ds ! k \<le> ds ! j"
  proof (intro allI impI)
    fix j assume "j < length ds"
    then have "ds ! j \<in> set ds" by (rule nth_mem)
    then have "m \<le> ds ! j" unfolding m_def using fin by (rule_tac Min_le)
    then show "ds ! k \<le> ds ! j" unfolding kv .
  qed
  have lt: "\<forall>j<k. ds ! k < ds ! j"
  proof (intro allI impI)
    fix j assume jk: "j < k"
    then have jl: "j < length ds" using kl by (rule less_trans)
    have "take k ds ! j = ds ! j" using jk by (rule nth_take)
    moreover have "take k ds ! j \<in> set (take k ds)" using jk kl by (intro nth_mem) simp
    ultimately have "ds ! j \<noteq> m" using kf by metis
    moreover have "ds ! k \<le> ds ! j" using le jl by blast
    ultimately show "ds ! k < ds ! j"
      unfolding kv by (rule_tac order.not_eq_order_implies_strict) auto
  qed
  show ?thesis using k kl le lt unfolding m_def by blast
qed

lemma py_range_up: "py_range (int a) (int b) 1 = map int [a..<b]"
proof (induction "b - a" arbitrary: a)
  case 0
  then show ?case by simp
next
  case (Suc d)
  then have ab: "a < b" and d: "d = b - Suc a" by auto
  have "py_range (int a) (int b) 1 = int a # py_range (int (Suc a)) (int b) 1"
    using ab by (simp add: add.commute)
  also have "\<dots> = int a # map int [Suc a..<b]" using Suc.hyps(1)[OF d] by simp
  finally show ?case using ab by (simp add: upt_conv_Cons)
qed

lemma py_range_down: "py_range (int a) (int b) (- 1) = map int (rev [Suc b..<Suc a])"
proof (induction a)
  case 0
  then show ?case by simp
next
  case (Suc a)
  show ?case
  proof (cases "b < Suc a")
    case True
    have "py_range (int (Suc a)) (int b) (- 1) = int (Suc a) # py_range (int a) (int b) (- 1)"
      using True by simp
    then show ?thesis using Suc True by simp
  next
    case False
    then show ?thesis by simp
  qed
qed

lemma collect_in_range:
  "list_all (\<lambda>i. i < length ws) ks \<Longrightarrow> collect ws (map int ks) = Inr (map (nth ws) ks)"
  by (induction ks) (auto simp: getitem_def)

section \<open>getClosest: the nearest candidate, the first among equals\<close>

text \<open>
  C2. When a name has two or more candidates and a reference point is given,
  \<open>getClosest\<close> returns a candidate whose distance to the reference point is the
  least of all candidates, and every candidate before it in the list is strictly
  farther: among candidates at the least distance it is the first in insertion order.
\<close>

theorem getClosest_nearest_first:
  assumes c: "wpts db nm = Some cands" and n: "2 \<le> length cands"
  shows "\<exists>k<length cands. getClosest geod db nm (Some r) = Inr (cands ! k)
           \<and> (\<forall>j<length cands. s12 geod (cands ! k) r \<le> s12 geod (cands ! j) r)
           \<and> (\<forall>j<k. s12 geod (cands ! k) r < s12 geod (cands ! j) r)"
proof -
  define ds where "ds = map (\<lambda>w. s12 geod w r) cands"
  have len: "length ds = length cands" unfolding ds_def by simp
  have ne: "ds \<noteq> []" using n len by auto
  have nth: "\<And>j. j < length cands \<Longrightarrow> ds ! j = s12 geod (cands ! j) r"
    unfolding ds_def by simp
  obtain k where k: "index ds (Min (set ds)) = Some k" and kl: "k < length ds"
    and le: "\<forall>j<length ds. ds ! k \<le> ds ! j" and lt: "\<forall>j<k. ds ! k < ds ! j"
    using index_Min[OF ne] by blast
  have kc: "k < length cands" using kl len by simp
  have m: "py_min ds = Inr (Min (set ds))" using ne by (rule py_min_Min)
  have n1: "length cands \<noteq> 1" using n by simp
  have g: "getClosest geod db nm (Some r) = Inr (cands ! k)"
    unfolding getClosest_def Let_def
    by (simp only: c option.case n1 if_False m[unfolded ds_def] k[unfolded ds_def] sum.case)
  have a: "\<forall>j<length cands. s12 geod (cands ! k) r \<le> s12 geod (cands ! j) r"
  proof (intro allI impI)
    fix j assume j: "j < length cands"
    then have "ds ! k \<le> ds ! j" using le len by simp
    then show "s12 geod (cands ! k) r \<le> s12 geod (cands ! j) r"
      unfolding nth[OF j] nth[OF kc] .
  qed
  have b: "\<forall>j<k. s12 geod (cands ! k) r < s12 geod (cands ! j) r"
  proof (intro allI impI)
    fix j assume jk: "j < k"
    then have j: "j < length cands" using kc by (rule less_trans)
    have "ds ! k < ds ! j" using lt jk by blast
    then show "s12 geod (cands ! k) r < s12 geod (cands ! j) r"
      unfolding nth[OF j] nth[OF kc] .
  qed
  show ?thesis using kc g a b by blast
qed

text \<open>
  The instance at the small database: the second and third candidates of \<open>MID\<close> are
  equally near the reference point, the first is farther, and the second is returned.
\<close>

lemmas ex_defs = example_db_def egll_def egkk_def bogna_def mid1_def mid2_def mid3_def
  wa_def wb_def wc_def wd_def abcd_def Route_def addWaypoint_def WayPoint_def NavAid_def
  Airport_def flat_def s12_def

theorem getClosest_nearest_first_witness:
  "wpts example_db ''MID'' = Some [mid1, mid2, mid3] \<and> 2 \<le> length [mid1, mid2, mid3]
   \<and> getClosest flat example_db ''MID'' (Some egll) = Inr mid2
   \<and> s12 flat mid2 egll = s12 flat mid3 egll \<and> s12 flat mid2 egll < s12 flat mid1 egll"
proof -
  have c: "wpts example_db ''MID'' = Some [mid1, mid2, mid3]" by (simp add: example_db_def)
  have n: "2 \<le> length [mid1, mid2, mid3]" by simp
  obtain k where kl: "k < length [mid1, mid2, mid3]"
    and g: "getClosest flat example_db ''MID'' (Some egll) = Inr ([mid1, mid2, mid3] ! k)"
    and le: "\<forall>j<length [mid1, mid2, mid3].
               s12 flat ([mid1, mid2, mid3] ! k) egll \<le> s12 flat ([mid1, mid2, mid3] ! j) egll"
    and lt: "\<forall>j<k. s12 flat ([mid1, mid2, mid3] ! k) egll < s12 flat ([mid1, mid2, mid3] ! j) egll"
    using getClosest_nearest_first[OF c n, of flat egll] by blast
  have d1: "s12 flat mid1 egll = 61" and d2: "s12 flat mid2 egll = 1" and d3: "s12 flat mid3 egll = 1"
    by (simp_all add: ex_defs)
  have "k = 0 \<or> k = 1 \<or> k = 2" using kl by auto
  then have "k = 1"
  proof (elim disjE)
    assume "k = 0" then show ?thesis using le[rule_format, of 1] d1 d2 by simp
  next
    assume "k = 1" then show ?thesis .
  next
    assume "k = 2" then show ?thesis using lt[rule_format, of 1] d2 d3 by simp
  qed
  then show ?thesis using c g d1 d2 d3 by simp
qed

section \<open>getWaypoints: the half-open segment\<close>

text \<open>
  C3. On a route whose two lists are index-aligned and whose names contain the entry
  and the exit, at first positions \<open>ei\<close> and \<open>xi\<close>, \<open>getWaypoints\<close> returns the
  waypoints at the indices from \<open>ei\<close> up to but excluding \<open>xi\<close>: backward
  (\<open>ei, ei - 1, \<dots>, xi + 1\<close>) when \<open>ei\<close> exceeds \<open>xi\<close>, forward (\<open>ei, \<dots>, xi - 1\<close>)
  otherwise, hence nothing when the entry is the exit.
\<close>

theorem getWaypoints_half_open:
  assumes len: "length (r_wpts r) = length (r_wptnames r)"
    and ie: "index (r_wptnames r) entry = Some ei"
    and ix: "index (r_wptnames r) exit = Some xi"
  shows "getWaypoints r entry exit =
           Inr (map (nth (r_wpts r)) (if xi < ei then rev [Suc xi..<Suc ei] else [ei..<xi]))"
proof -
  have e: "ei < length (r_wpts r)" and x: "xi < length (r_wpts r)"
    using ie ix len by (simp_all add: index_Some_iff)
  show ?thesis
  proof (cases "xi < ei")
    case True
    have "list_all (\<lambda>i. i < length (r_wpts r)) (rev [Suc xi..<Suc ei])"
      using e by (auto simp: list_all_iff)
    then show ?thesis using True ie ix
      by (simp add: getWaypoints_def py_range_down collect_in_range del: py_range.simps upt_Suc)
  next
    case False
    have "list_all (\<lambda>i. i < length (r_wpts r)) [ei..<xi]"
      using x by (auto simp: list_all_iff)
    then show ?thesis using False ie ix
      by (simp add: getWaypoints_def py_range_up collect_in_range del: py_range.simps)
  qed
qed

text \<open>
  The route \<open>[A, B, C, D]\<close>: from \<open>A\<close> to \<open>D\<close>, from \<open>D\<close> to \<open>A\<close>, and from \<open>B\<close> to
  \<open>B\<close>.
\<close>

theorem getWaypoints_half_open_witness:
  "r_wptnames abcd = [''A'', ''B'', ''C'', ''D''] \<and> r_wpts abcd = [wa, wb, wc, wd]
   \<and> getWaypoints abcd ''A'' ''D'' = Inr [wa, wb, wc]
   \<and> getWaypoints abcd ''D'' ''A'' = Inr [wd, wc, wb]
   \<and> getWaypoints abcd ''B'' ''B'' = Inr []"
proof -
  have n: "r_wptnames abcd = [''A'', ''B'', ''C'', ''D'']" and w: "r_wpts abcd = [wa, wb, wc, wd]"
    by (simp_all add: abcd_def Route_def addWaypoint_def wa_def wb_def wc_def wd_def WayPoint_def)
  have len: "length (r_wpts abcd) = length (r_wptnames abcd)" by (simp add: n w)
  have ia: "index (r_wptnames abcd) ''A'' = Some 0" by (simp add: n)
  have ib: "index (r_wptnames abcd) ''B'' = Some 1" by (simp add: n)
  have id: "index (r_wptnames abcd) ''D'' = Some 3" by (simp add: n)
  have u1: "[0..<3] = [0, 1, 2::nat]" by (simp add: upt_rec)
  have u2: "[Suc 0..<4] = [1, 2, 3::nat]" by (simp add: upt_rec)
  have 1: "getWaypoints abcd ''A'' ''D'' = Inr [wa, wb, wc]"
    using getWaypoints_half_open[OF len ia id] by (simp add: w u1)
  have 2: "getWaypoints abcd ''D'' ''A'' = Inr [wd, wc, wb]"
    using getWaypoints_half_open[OF len id ia] by (simp add: w u2)
  have 3: "getWaypoints abcd ''B'' ''B'' = Inr []"
    using getWaypoints_half_open[OF len ib ib] by simp
  show ?thesis using n w 1 2 3 by simp
qed

section \<open>getFPLelemtype\<close>

lemma isalpha_not_isdigit: "isalpha c \<Longrightarrow> \<not> isdigit c"
  by (auto simp: chr_defs)

lemma contains_short: "length t < length sub \<Longrightarrow> \<not> contains t sub"
  by (induction t) auto

lemma contains_same_length: "length s = length sub \<Longrightarrow> contains s sub = (s = sub)"
  by (cases s) (auto simp: contains_short)

text \<open>The one way out of the chain without a \<open>return\<close>.\<close>

lemma getFPLelemtype_None_iff:
  "getFPLelemtype db elem = None \<longleftrightarrow>
     length elem = 4 \<and> slice 0 3 elem = ''NAT'' \<and> \<not> isalpha (elem ! 3)"
proof (cases "length elem = 4")
  case True
  then have c: "contains (slice 0 3 elem) ''NAT'' = (slice 0 3 elem = ''NAT'')"
    by (intro contains_same_length) (simp add: slice_def)
  have ne: "elem \<noteq> ''DCT''" using True by auto
  show ?thesis using True ne by (simp add: getFPLelemtype_def Let_def c)
next
  case False
  then show ?thesis by (simp add: getFPLelemtype_def Let_def)
qed

text \<open>
  C4. The classifier is not total over the eight roles: on the length-4 token \<open>NAT1\<close>,
  whose first three characters are \<open>NAT\<close> and whose fourth is a digit, the branch of
  the track designators is entered and left without a \<open>return\<close>, and the result is
  \<open>None\<close>, not \<open>prc\<close>.
\<close>

theorem getFPLelemtype_NAT_digit: "getFPLelemtype db ''NAT1'' = None"
  by (simp add: getFPLelemtype_def count_def slice_def chr_defs)

text \<open>
  C5, as the code has it. A 4-character all-alphabetic token is an airport, whatever
  the database knows under that name, unless its first three characters are \<open>NAT\<close>:
  then it is a track designator.
\<close>

theorem getFPLelemtype_four_letters:
  assumes "length elem = 4" "str_isalpha elem"
  shows "getFPLelemtype db elem = Some (if slice 0 3 elem = ''NAT'' then ''nat'' else ''apt'')"
proof -
  have nd: "filter isdigit elem = []"
    using assms(2) by (auto simp: str_isalpha_def filter_empty_conv list_all_iff isalpha_not_isdigit)
  have a3: "isalpha (elem ! 3)" using assms by (simp add: str_isalpha_def list_all_length)
  have ne: "elem \<noteq> ''DCT''" using assms(1) by auto
  have c: "contains (slice 0 3 elem) ''NAT'' = (slice 0 3 elem = ''NAT'')"
    by (rule contains_same_length) (simp add: slice_def assms(1))
  show ?thesis using ne a3
    by (simp add: getFPLelemtype_def Let_def assms(1) nd c)
qed

text \<open>\<open>EGLL\<close> is a point name of the small database and is classified as an airport.\<close>

theorem getFPLelemtype_four_letters_witness:
  "length ''EGLL'' = 4 \<and> str_isalpha ''EGLL'' \<and> wpts example_db ''EGLL'' = Some [egll]
   \<and> getFPLelemtype example_db ''EGLL'' = Some ''apt''"
proof -
  have l: "length ''EGLL'' = 4" by simp
  have a: "str_isalpha ''EGLL''" by (simp add: str_isalpha_def chr_defs)
  show ?thesis using getFPLelemtype_four_letters[OF l a, of example_db] l a
    by (simp add: slice_def example_db_def)
qed

text \<open>
  C5 as stated fails at \<open>NATA\<close>: four characters, all alphabetic, no digit, and not
  an airport.
\<close>

theorem getFPLelemtype_NATA:
  "length ''NATA'' = 4 \<and> str_isalpha ''NATA'' \<and> length (filter isdigit ''NATA'') = 0
   \<and> getFPLelemtype example_db ''NATA'' \<noteq> Some ''apt''"
  by (simp add: getFPLelemtype_def count_def slice_def chr_defs str_isalpha_def)

section \<open>UnnamedWaypoint: the three examples\<close>

text \<open>
  C7. \<open>N1234.5/E16759.9\<close> decodes to latitude 12.575 and a longitude within
  \<open>0.0001\<close> of 167.9983; \<open>H0123\<close> decodes to latitude 1.5 and longitude -23; and
  \<open>95N200E\<close> raises \<open>UnnamedOutOfBounds\<close>.
\<close>

theorem UnnamedWaypoint_examples:
  "UnnamedWaypoint ''N1234.5/E16759.9'' =
     Inr \<lparr>name = ''N1234.5/E16759.9'', lat = 12.575, lon = 167 + 599 / 600,
          type = ''uWPT'', descr = []\<rparr>
   \<and> \<bar>(167 + 599 / 600) - 167.9983\<bar> < (0.0001 :: real)
   \<and> UnnamedWaypoint ''H0123'' =
       Inr \<lparr>name = ''H0123'', lat = 1.5, lon = - 23, type = ''uWPT'', descr = []\<rparr>
   \<and> UnnamedWaypoint ''95N200E'' = Inl (UnnamedOutOfBounds ''95N200E'')"
  by (simp add: UnnamedWaypoint_def finish_unnamed_def deg_min_def float_dec_def str_isdigit_def
        chr_defs slice_def nat_of_digits_def digit_val_def WayPoint_def)

section \<open>expandFPL: the example route\<close>

lemma split_example: "split ''EGLL DCT BOGNA EGKK'' = [''EGLL'', ''DCT'', ''BOGNA'', ''EGKK'']"
  by (simp add: split_def chr_defs)

lemma validate_example: "validate [''EGLL'', ''DCT'', ''BOGNA'', ''EGKK''] = Inr ()"
  by (simp add: str_isalnum_def remove_char_def count_def chr_defs)

lemma type_EGLL: "getFPLelemtype db ''EGLL'' = Some ''apt''"
  by (simp add: getFPLelemtype_def count_def slice_def chr_defs)
lemma type_EGKK: "getFPLelemtype db ''EGKK'' = Some ''apt''"
  by (simp add: getFPLelemtype_def count_def slice_def chr_defs)
lemma type_DCT: "getFPLelemtype db ''DCT'' = Some ''dct''"
  by (simp add: getFPLelemtype_def)
lemma type_BOGNA: "getFPLelemtype db ''BOGNA'' = Some ''fix''"
  by (simp add: getFPLelemtype_def count_def slice_def chr_defs str_isalpha_def)

text \<open>
  C1. In a database whose first candidate for \<open>EGLL\<close> is \<open>a\<close>, whose first
  candidate for \<open>EGKK\<close> is \<open>k\<close> and whose only candidate for \<open>BOGNA\<close> is an
  object \<open>b\<close> other than \<open>a\<close>, the route \<open>EGLL DCT BOGNA EGKK\<close> expands to copies
  of \<open>a\<close>, \<open>b\<close> and \<open>k\<close>, in that order: \<open>DCT\<close> adds nothing.
\<close>

theorem expandFPL_EGLL_DCT_BOGNA_EGKK:
  assumes a: "wpts db ''EGLL'' = Some (a # as)"
    and k: "wpts db ''EGKK'' = Some (k # ks)"
    and b: "wpts db ''BOGNA'' = Some [b]"
    and ab: "fst b \<noteq> fst a"
  shows "expandFPL geod db ''EGLL DCT BOGNA EGKK'' = Inr [copy a, copy b, copy k]"
proof -
  let ?arr = "[''EGLL'', ''DCT'', ''BOGNA'', ''EGKK'']"
  let ?s0 = "\<lparr>out_wpts = [], last_wpt = None, apts_found = 0\<rparr>"
  let ?s1 = "\<lparr>out_wpts = [a], last_wpt = Some a, apts_found = 1\<rparr>"
  let ?s2 = "\<lparr>out_wpts = [a, b], last_wpt = Some b, apts_found = 1\<rparr>"
  let ?s3 = "\<lparr>out_wpts = [a, b, k], last_wpt = Some k, apts_found = 2\<rparr>"
  have 0: "expand_step geod db ?arr 0 ?s0 = Inr ?s1"
    by (simp add: expand_step_def type_EGLL apt_elem_def a)
  have 1: "expand_step geod db ?arr 1 ?s1 = Inr ?s1"
    by (simp add: expand_step_def type_DCT)
  have 2: "expand_step geod db ?arr 2 ?s1 = Inr ?s2"
    by (simp add: expand_step_def type_BOGNA fix_elem_def getClosest_def b py_eq_def ab append_wpt_def)
  have 3: "expand_step geod db ?arr 3 ?s2 = Inr ?s3"
    by (simp add: expand_step_def type_EGKK apt_elem_def k)
  have u: "[0..<4] = [0, 1, 2, 3::nat]" by (simp add: upt_rec)
  have l: "length ?arr = 4" by simp
  have lp: "expand_loop geod db ?arr [0..<length ?arr] ?s0 = Inr ?s3"
    unfolding l u by (simp only: expand_loop.simps 0 1 2 3 sum.case)
  show ?thesis
    unfolding expandFPL_def Let_def split_example
    by (simp only: validate_example lp sum.case fpl_state.simps list.map)
qed

text \<open>The small database holds the two airports and the fix.\<close>

theorem expandFPL_EGLL_DCT_BOGNA_EGKK_witness:
  "wpts example_db ''EGLL'' = Some [egll] \<and> wpts example_db ''EGKK'' = Some [egkk]
   \<and> wpts example_db ''BOGNA'' = Some [bogna] \<and> fst bogna \<noteq> fst egll
   \<and> expandFPL flat example_db ''EGLL DCT BOGNA EGKK'' = Inr [copy egll, copy bogna, copy egkk]
   \<and> map name [copy egll, copy bogna, copy egkk] = [''EGLL'', ''BOGNA'', ''EGKK'']"
proof -
  have a: "wpts example_db ''EGLL'' = Some (egll # [])" by (simp add: example_db_def)
  have k: "wpts example_db ''EGKK'' = Some (egkk # [])" by (simp add: example_db_def)
  have b: "wpts example_db ''BOGNA'' = Some [bogna]" by (simp add: example_db_def)
  have ab: "fst bogna \<noteq> fst egll" by (simp add: bogna_def egll_def)
  have n: "map name [copy egll, copy bogna, copy egkk] = [''EGLL'', ''BOGNA'', ''EGKK'']"
    by (simp add: copy_def ex_defs)
  show ?thesis using expandFPL_EGLL_DCT_BOGNA_EGKK[OF a k b ab, of flat] a k b ab n by simp
qed

section \<open>expandFPL: illegal characters\<close>

lemma isalnum_not_sep: "isalnum c \<Longrightarrow> c \<noteq> CHR ''.'' \<and> c \<noteq> CHR ''/''"
  by (auto simp: chr_defs)

lemma bad_token_iff:
  "bad_token e \<longleftrightarrow>
     \<not> str_isalnum (remove_char CHR ''.'' (remove_char CHR ''/'' e)) \<or> 1 < count e CHR ''/''"
proof -
  have "str_isalnum (remove_char CHR ''.'' (remove_char CHR ''/'' e))
          \<longleftrightarrow> list_ex isalnum e \<and> \<not> list_ex (\<lambda>c. \<not> isalnum c \<and> c \<noteq> CHR ''.'' \<and> c \<noteq> CHR ''/'') e"
    unfolding str_isalnum_def remove_char_def list_ex_iff list_all_iff
    using isalnum_not_sep by (auto simp: filter_empty_conv)
  then show ?thesis unfolding bad_token_def by blast
qed

lemma validate_Inl:
  "validate ts = Inl e \<longleftrightarrow>
     (\<exists>pre t post. ts = pre @ t # post \<and> bad_token t \<and> list_all (\<lambda>x. \<not> bad_token x) pre
        \<and> e = IllegalCharacterError t)"
proof (induction ts)
  case Nil
  then show ?case by simp
next
  case (Cons x xs)
  show ?case
  proof (cases "bad_token x")
    case True
    then have v: "validate (x # xs) = Inl (IllegalCharacterError x)"
      using bad_token_iff[of x] by simp
    show ?thesis
    proof
      assume "validate (x # xs) = Inl e"
      then have "e = IllegalCharacterError x" using v by simp
      then have "x # xs = [] @ x # xs \<and> bad_token x \<and> list_all (\<lambda>x. \<not> bad_token x) []
                  \<and> e = IllegalCharacterError x" using True by simp
      then show "\<exists>pre t post. x # xs = pre @ t # post \<and> bad_token t
                  \<and> list_all (\<lambda>x. \<not> bad_token x) pre \<and> e = IllegalCharacterError t" by blast
    next
      assume "\<exists>pre t post. x # xs = pre @ t # post \<and> bad_token t
                  \<and> list_all (\<lambda>x. \<not> bad_token x) pre \<and> e = IllegalCharacterError t"
      then obtain pre t post where p: "x # xs = pre @ t # post" "bad_token t"
         "list_all (\<lambda>x. \<not> bad_token x) pre" "e = IllegalCharacterError t" by blast
      have "pre = []" using p(1,3) True by (cases pre) auto
      then show "validate (x # xs) = Inl e" using p v by simp
    qed
  next
    case False
    then have v: "validate (x # xs) = validate xs"
      using bad_token_iff[of x] by simp
    show ?thesis
    proof
      assume "validate (x # xs) = Inl e"
      then obtain pre t post where p: "xs = pre @ t # post" "bad_token t"
         "list_all (\<lambda>x. \<not> bad_token x) pre" "e = IllegalCharacterError t"
        using v Cons.IH by auto
      then have "x # xs = (x # pre) @ t # post \<and> bad_token t
                  \<and> list_all (\<lambda>x. \<not> bad_token x) (x # pre) \<and> e = IllegalCharacterError t"
        using False by simp
      then show "\<exists>pre t post. x # xs = pre @ t # post \<and> bad_token t
                  \<and> list_all (\<lambda>x. \<not> bad_token x) pre \<and> e = IllegalCharacterError t" by blast
    next
      assume "\<exists>pre t post. x # xs = pre @ t # post \<and> bad_token t
                  \<and> list_all (\<lambda>x. \<not> bad_token x) pre \<and> e = IllegalCharacterError t"
      then obtain pre t post where p: "x # xs = pre @ t # post" "bad_token t"
         "list_all (\<lambda>x. \<not> bad_token x) pre" "e = IllegalCharacterError t" by blast
      obtain pre' where "pre = x # pre'" using p(1,2) False by (cases pre) auto
      then have "xs = pre' @ t # post \<and> bad_token t \<and> list_all (\<lambda>x. \<not> bad_token x) pre'
                   \<and> e = IllegalCharacterError t" using p by simp
      then have "validate xs = Inl e" using Cons.IH by blast
      then show "validate (x # xs) = Inl e" using v by simp
    qed
  qed
qed

lemma bind_not_illegal:
  "r \<noteq> Inl (IllegalCharacterError t) \<Longrightarrow> (\<And>x. f x \<noteq> Inl (IllegalCharacterError t))
     \<Longrightarrow> (case r of Inl e \<Rightarrow> Inl e | Inr x \<Rightarrow> f x) \<noteq> Inl (IllegalCharacterError t)"
  by (cases r) auto

lemma getClosest_not_illegal: "getClosest geod db nm c \<noteq> Inl (IllegalCharacterError t)"
  by (simp add: getClosest_def Let_def py_min_def split: option.splits list.splits sum.splits)

lemma collect_not_illegal: "collect ws ks \<noteq> Inl (IllegalCharacterError t)"
  by (induction ks) (auto simp: getitem_def split: sum.splits if_splits)

lemma getWaypoints_not_illegal: "getWaypoints r a b \<noteq> Inl (IllegalCharacterError t)"
  by (simp add: getWaypoints_def Let_def collect_not_illegal split: option.splits del: py_range.simps)

lemma first_wpt_not_illegal: "first_wpt db key \<noteq> Inl (IllegalCharacterError t)"
  by (simp add: first_wpt_def split: option.splits list.splits)

lemma deg_min_not_illegal: "deg_min sg a b d \<noteq> Inl (IllegalCharacterError t)"
  by (simp add: deg_min_def split: option.splits)

lemma conv_not_illegal:
  "(case float_dec s of None \<Rightarrow> Inl ValueError | Some x \<Rightarrow> Inr (g x)) \<noteq> Inl (IllegalCharacterError t)"
  by (simp split: option.splits)

lemma finish_unnamed_not_illegal:
  "la \<noteq> Inl (IllegalCharacterError t) \<Longrightarrow> lo \<noteq> Inl (IllegalCharacterError t)
     \<Longrightarrow> finish_unnamed n la lo \<noteq> Inl (IllegalCharacterError t)"
  by (auto simp: finish_unnamed_def split: sum.splits)

lemma UnnamedWaypoint_not_illegal: "UnnamedWaypoint n \<noteq> Inl (IllegalCharacterError t)"
  unfolding UnnamedWaypoint_def Let_def
  by (simp only: if_distrib[where f="\<lambda>r. r \<noteq> Inl (IllegalCharacterError t)"]
        finish_unnamed_not_illegal[OF deg_min_not_illegal deg_min_not_illegal]
        finish_unnamed_not_illegal[OF conv_not_illegal conv_not_illegal]
        sum.inject error.distinct sum.distinct not_False_eq_True if_cancel simp_thms)

lemma awy_elem_not_illegal: "awy_elem db arr i st \<noteq> Inl (IllegalCharacterError t)"
  unfolding awy_elem_def Let_def
  by (auto simp: getWaypoints_not_illegal split: option.splits sum.splits)

lemma prc_elem_not_illegal: "prc_elem geod db arr i st \<noteq> Inl (IllegalCharacterError t)"
  unfolding prc_elem_def Let_def
  by (intro bind_not_illegal; simp add: bind_not_illegal getClosest_not_illegal first_wpt_not_illegal)

lemma apt_elem_not_illegal: "apt_elem db elem st \<noteq> Inl (IllegalCharacterError t)"
  by (simp add: apt_elem_def split: option.splits list.splits)

lemma ufx_elem_not_illegal: "ufx_elem geod elem i st \<noteq> Inl (IllegalCharacterError t)"
  unfolding ufx_elem_def Let_def
  by (intro bind_not_illegal; simp add: UnnamedWaypoint_not_illegal distTo_def split: option.splits)

lemma fix_elem_not_illegal: "fix_elem geod db elem st \<noteq> Inl (IllegalCharacterError t)"
  unfolding fix_elem_def
  by (intro bind_not_illegal; simp add: getClosest_not_illegal)

lemma expand_step_not_illegal: "expand_step geod db arr i st \<noteq> Inl (IllegalCharacterError t)"
  unfolding expand_step_def Let_def
  by (simp add: awy_elem_not_illegal prc_elem_not_illegal apt_elem_not_illegal
        ufx_elem_not_illegal fix_elem_not_illegal)

lemma expand_loop_not_illegal: "expand_loop geod db arr ks st \<noteq> Inl (IllegalCharacterError t)"
proof (induction ks arbitrary: st)
  case Nil
  then show ?case by simp
next
  case (Cons k ks)
  show ?case unfolding expand_loop.simps
    by (intro bind_not_illegal expand_step_not_illegal Cons.IH)
qed

text \<open>
  C6, as the code has it. \<open>expandFPL\<close> raises \<open>IllegalCharacterError\<close> naming \<open>t\<close>
  exactly when \<open>t\<close> is the first token of the route that holds a character other than
  alphanumerics, \<open>.\<close> and \<open>/\<close>, or holds no alphanumeric character, or holds more
  than one \<open>/\<close>. The number of \<open>.\<close> in a token plays no part. The tokens are the
  runs between white space as \<open>str.split\<close> cuts them, and the alphanumerics are those
  of \<open>str.isalnum\<close>, Latin-1 letters and numerics included.
\<close>

theorem expandFPL_IllegalCharacter_iff:
  "expandFPL geod db fpl = Inl (IllegalCharacterError t) \<longleftrightarrow>
     (\<exists>pre post. split fpl = pre @ t # post \<and> bad_token t
        \<and> list_all (\<lambda>x. \<not> bad_token x) pre)"
proof -
  have "expandFPL geod db fpl = Inl (IllegalCharacterError t)
          \<longleftrightarrow> validate (split fpl) = Inl (IllegalCharacterError t)"
    unfolding expandFPL_def Let_def
    by (auto simp: expand_loop_not_illegal split: sum.splits)
  then show ?thesis unfolding validate_Inl by auto
qed

text \<open>
  A route whose third token is the first rejected one; the second token has three
  \<open>.\<close> and is accepted.
\<close>

lemmas tok_defs = str_isalnum_def remove_char_def count_def chr_defs
  str_isalpha_def str_isdigit_def slice_def

theorem expandFPL_IllegalCharacter_iff_witness:
  "split ''EGLL X..Y.Z A-B Q//R'' = [''EGLL'', ''X..Y.Z'', ''A-B'', ''Q//R'']
   \<and> \<not> bad_token ''EGLL'' \<and> \<not> bad_token ''X..Y.Z'' \<and> bad_token ''A-B'' \<and> bad_token ''Q//R''
   \<and> expandFPL flat example_db ''EGLL X..Y.Z A-B Q//R'' = Inl (IllegalCharacterError ''A-B'')"
proof -
  have s: "split ''EGLL X..Y.Z A-B Q//R'' = [''EGLL'', ''X..Y.Z'', ''A-B'', ''Q//R'']"
    by (simp add: split_def chr_defs)
  have b: "\<not> bad_token ''EGLL''" "\<not> bad_token ''X..Y.Z''" "bad_token ''A-B''" "bad_token ''Q//R''"
    by (simp_all add: bad_token_def tok_defs)
  have "split ''EGLL X..Y.Z A-B Q//R'' = [''EGLL'', ''X..Y.Z''] @ ''A-B'' # [''Q//R'']
        \<and> bad_token ''A-B'' \<and> list_all (\<lambda>x. \<not> bad_token x) [''EGLL'', ''X..Y.Z'']"
    using s b by simp
  then have "expandFPL flat example_db ''EGLL X..Y.Z A-B Q//R'' = Inl (IllegalCharacterError ''A-B'')"
    unfolding expandFPL_IllegalCharacter_iff by blast
  then show ?thesis using s b by simp
qed

text \<open>
  C6 as stated fails twice: a token with more than one \<open>.\<close> raises nothing, and the
  token \<open>.\<close>, which is within the allowed shape, is rejected.
\<close>

theorem expandFPL_dots_counterexample:
  "1 < count ''X..Y.Z'' CHR ''.''
   \<and> expandFPL flat example_db ''X..Y.Z'' = Inr []
   \<and> expandFPL flat example_db ''.'' = Inl (IllegalCharacterError ''.'')"
proof -
  have t: "getFPLelemtype example_db ''X..Y.Z'' = Some ''prc''"
    by (simp add: getFPLelemtype_def tok_defs example_db_def)
  have s: "split ''X..Y.Z'' = [''X..Y.Z'']" by (simp add: split_def chr_defs)
  have v: "validate [''X..Y.Z''] = Inr ()" by (simp add: tok_defs)
  have st: "expand_step flat example_db [''X..Y.Z''] 0 \<lparr>out_wpts = [], last_wpt = None, apts_found = 0\<rparr>
           = Inr \<lparr>out_wpts = [], last_wpt = None, apts_found = 0\<rparr>"
    by (simp add: expand_step_def t)
  have lp: "expand_loop flat example_db [''X..Y.Z''] [0..<length [''X..Y.Z'']]
              \<lparr>out_wpts = [], last_wpt = None, apts_found = 0\<rparr>
            = Inr \<lparr>out_wpts = [], last_wpt = None, apts_found = 0\<rparr>"
    by (simp add: st)
  have 1: "expandFPL flat example_db ''X..Y.Z'' = Inr []"
    unfolding expandFPL_def Let_def s
    by (simp only: v lp sum.case fpl_state.simps list.map)
  have s2: "split ''.'' = [''.'']" by (simp add: split_def chr_defs)
  have 2: "expandFPL flat example_db ''.'' = Inl (IllegalCharacterError ''.'')"
    by (simp add: expandFPL_def s2 tok_defs)
  show ?thesis using 1 2 by (simp add: count_def)
qed

section \<open>Characters beyond ASCII\<close>

text \<open>
  The character tests on Latin-1 code points, and what they do to a route: a token
  with the letter \<open>U+00C4\<close> passes the first loop and is looked up as a fix, the
  no-break space \<open>U+00A0\<close> separates two tokens, and a superscript digit passes
  \<open>isdigit\<close> in the classifier and the decoder and then makes \<open>float\<close> raise.
\<close>

lemma latin1_classes: "isalnum (CHR 0xC4) \<and> isalpha (CHR 0xC4) \<and> isspace (CHR 0xA0) \<and> isdigit (CHR 0xB2)
   \<and> \<not> isdecimal (CHR 0xB2) \<and> \<not> isalpha (CHR 0xD7)"
  by (simp add: chr_defs)

lemma expandFPL_latin1_letter:
  "expandFPL flat example_db (CHR 0xC4 # ''BC'') = Inl (ElementNotFoundError (CHR 0xC4 # ''BC''))"
proof -
  let ?t = "CHR 0xC4 # ''BC''"
  have s: "split ?t = [?t]" by (simp add: split_def chr_defs)
  have v: "validate [?t] = Inr ()" by (simp add: tok_defs)
  have t: "getFPLelemtype example_db ?t = Some ''fix''"
    by (simp add: getFPLelemtype_def tok_defs)
  have w: "wpts example_db ?t = None" by (simp add: example_db_def)
  have st: "expand_step flat example_db [?t] 0 \<lparr>out_wpts = [], last_wpt = None, apts_found = 0\<rparr>
           = Inl (ElementNotFoundError ?t)"
    by (simp add: expand_step_def t fix_elem_def getClosest_def w)
  have lp: "expand_loop flat example_db [?t] [0..<length [?t]]
              \<lparr>out_wpts = [], last_wpt = None, apts_found = 0\<rparr>
            = Inl (ElementNotFoundError ?t)"
    by (simp add: st)
  show ?thesis
    unfolding expandFPL_def Let_def s by (simp only: v lp sum.case)
qed

lemma expandFPL_no_break_space:
  "expandFPL flat example_db (''EGLL'' @ [CHR 0xA0] @ ''EGKK'') = Inr [copy egll, copy egkk]"
proof -
  let ?arr = "[''EGLL'', ''EGKK'']"
  let ?s0 = "\<lparr>out_wpts = [], last_wpt = None, apts_found = 0\<rparr>"
  let ?s1 = "\<lparr>out_wpts = [egll], last_wpt = Some egll, apts_found = 1\<rparr>"
  let ?s2 = "\<lparr>out_wpts = [egll, egkk], last_wpt = Some egkk, apts_found = 2\<rparr>"
  have s: "split (''EGLL'' @ [CHR 0xA0] @ ''EGKK'') = ?arr" by (simp add: split_def chr_defs)
  have v: "validate ?arr = Inr ()" by (simp add: tok_defs)
  have a: "wpts example_db ''EGLL'' = Some [egll]" by (simp add: example_db_def)
  have k: "wpts example_db ''EGKK'' = Some [egkk]" by (simp add: example_db_def)
  have 0: "expand_step flat example_db ?arr 0 ?s0 = Inr ?s1"
    by (simp add: expand_step_def type_EGLL apt_elem_def a)
  have 1: "expand_step flat example_db ?arr 1 ?s1 = Inr ?s2"
    by (simp add: expand_step_def type_EGKK apt_elem_def k)
  have u: "[0..<2] = [0, 1::nat]" by (simp add: upt_rec)
  have l: "length ?arr = 2" by simp
  have lp: "expand_loop flat example_db ?arr [0..<length ?arr] ?s0 = Inr ?s2"
    unfolding l u by (simp only: expand_loop.simps 0 1 sum.case)
  show ?thesis
    unfolding expandFPL_def Let_def s
    by (simp only: v lp sum.case fpl_state.simps list.map)
qed

lemma UnnamedWaypoint_superscript:
  "getFPLelemtype db (''1'' @ [CHR 0xB2] @ ''N123E'') = Some ''ufx''
   \<and> UnnamedWaypoint (''1'' @ [CHR 0xB2] @ ''N123E'') = Inl ValueError"
  by (simp add: getFPLelemtype_def UnnamedWaypoint_def finish_unnamed_def float_dec_def tok_defs)

section \<open>expandFPL: an unnamed waypoint with no waypoint before it\<close>

lemma expand_loop_append:
  "expand_loop geod db arr (ks @ js) st =
     (case expand_loop geod db arr ks st of Inl e \<Rightarrow> Inl e
      | Inr st' \<Rightarrow> expand_loop geod db arr js st')"
  by (induction ks arbitrary: st) (auto split: sum.splits)

lemma validate_cases: "validate ts = Inr () \<or> (\<exists>e. validate ts = Inl e)"
  by (cases "validate ts") auto

lemma ufx_elem_no_last:
  "last_wpt st = None \<Longrightarrow>
     ufx_elem geod elem i st =
       Inl (case UnnamedWaypoint elem of Inl e \<Rightarrow> e | Inr u \<Rightarrow> AttributeError)"
  by (simp add: ufx_elem_def distTo_def split: sum.splits)

text \<open>
  C10. When the second loop reaches an unnamed-waypoint token while \<open>last_wpt\<close> is still
  \<open>None\<close>, \<open>expandFPL\<close> returns no list: it raises. On a route that passes the first
  loop the error is that of the decoder when the token does not decode, and otherwise
  the \<open>AttributeError\<close> of \<open>distTo\<close> reading \<open>None.lat\<close>.
\<close>

theorem expandFPL_ufx_without_last_wpt:
  assumes k: "k < length (split fpl)"
    and pre: "expand_upto geod db fpl k = Inr st"
    and last: "last_wpt st = None"
    and ufx: "getFPLelemtype db (split fpl ! k) = Some ''ufx''"
  shows "\<exists>e. expandFPL geod db fpl = Inl e
           \<and> (validate (split fpl) = Inr () \<longrightarrow>
                e = (case UnnamedWaypoint (split fpl ! k) of Inl e' \<Rightarrow> e' | Inr u \<Rightarrow> AttributeError))"
proof -
  let ?arr = "split fpl"
  let ?e = "case UnnamedWaypoint (?arr ! k) of Inl e' \<Rightarrow> e' | Inr u \<Rightarrow> AttributeError"
  have u: "[0..<length ?arr] = [0..<k] @ k # [Suc k..<length ?arr]"
    using k by (metis le_add1 less_imp_add_positive upt_add_eq_append upt_conv_Cons zero_le)
  have stp: "expand_step geod db ?arr k st = Inl ?e"
    unfolding expand_step_def Let_def using ufx ufx_elem_no_last[OF last] by simp
  have lp: "expand_loop geod db ?arr [0..<length ?arr] \<lparr>out_wpts = [], last_wpt = None, apts_found = 0\<rparr>
              = Inl ?e"
    unfolding u expand_loop_append using pre stp by (simp add: expand_upto_def)
  show ?thesis
  proof (cases "validate ?arr")
    case (Inl e)
    then show ?thesis by (simp add: expandFPL_def)
  next
    case (Inr x)
    then show ?thesis using lp by (simp add: expandFPL_def)
  qed
qed

text \<open>\<open>DCT 50N020W EGLL\<close>: the unnamed waypoint decodes, and the call raises.\<close>

theorem expandFPL_ufx_without_last_wpt_witness:
  "expand_upto flat example_db ''DCT 50N020W EGLL'' 1 = Inr \<lparr>out_wpts = [], last_wpt = None, apts_found = 0\<rparr>
   \<and> getFPLelemtype example_db ''50N020W'' = Some ''ufx''
   \<and> (\<exists>u. UnnamedWaypoint ''50N020W'' = Inr u)
   \<and> expandFPL flat example_db ''DCT 50N020W EGLL'' = Inl AttributeError"
proof -
  let ?s0 = "\<lparr>out_wpts = [], last_wpt = None, apts_found = 0\<rparr>"
  have s: "split ''DCT 50N020W EGLL'' = [''DCT'', ''50N020W'', ''EGLL'']"
    by (simp add: split_def chr_defs)
  have k: "1 < length (split ''DCT 50N020W EGLL'')" by (simp add: s)
  have d: "getFPLelemtype example_db ''DCT'' = Some ''dct''" by (simp add: getFPLelemtype_def)
  have pre: "expand_upto flat example_db ''DCT 50N020W EGLL'' 1 = Inr ?s0"
    by (simp add: expand_upto_def s expand_step_def d)
  have t: "getFPLelemtype example_db ''50N020W'' = Some ''ufx''"
    by (simp add: getFPLelemtype_def tok_defs)
  have ufx: "getFPLelemtype example_db (split ''DCT 50N020W EGLL'' ! 1) = Some ''ufx''"
    by (simp add: s t)
  have dec: "UnnamedWaypoint ''50N020W'' =
               Inr \<lparr>name = ''50N020W'', lat = 50, lon = - 20, type = ''uWPT'', descr = []\<rparr>"
    by (simp add: UnnamedWaypoint_def finish_unnamed_def float_dec_def tok_defs
          nat_of_digits_def digit_val_def WayPoint_def)
  have v: "validate (split ''DCT 50N020W EGLL'') = Inr ()" by (simp add: s tok_defs)
  have "expandFPL flat example_db ''DCT 50N020W EGLL'' = Inl AttributeError"
    using expandFPL_ufx_without_last_wpt[OF k pre _ ufx] v by (simp add: s dec)
  then show ?thesis using pre t dec by simp
qed

section \<open>The loader: cycle headers\<close>

lemma load_points_header:
  assumes "l \<noteq> []" "l ! 0 = CHR '';''" "contains (slice 1 6 l) ''AIRAC''"
  shows "load_points pint strptime fname label mk k [l] (cur, m, n) =
           (case new_AIRACcycle pint strptime l of
              Inl e \<Rightarrow> Inl e
            | Inr a \<Rightarrow> (case cur of None \<Rightarrow> Inr (Some a, m, n)
                | Some a0 \<Rightarrow> if cycle a = cycle a0 then Inr (cur, m, n)
                             else Inl (WrongAIRACcycleError label)))"
  using assms by (simp add: comment_line_def airac_eq_def split: sum.splits option.splits)

text \<open>
  C8, at the input where the code departs from it. The navaid file holds one header
  line and the runway file \<open>wpNavAPT.txt\<close> one header line of another cycle number, the
  fix file is empty: the load raises \<open>WrongAIRACcycleError\<close>, and the file the error
  names is \<open>wpNavFIX.txt\<close>, not the runway file whose header disagrees.
\<close>

theorem load_cycle_mismatch_in_APT:
  assumes l1: "h1 \<noteq> []" "h1 ! 0 = CHR '';''" "contains (slice 1 6 h1) ''AIRAC''"
    and l2: "h2 \<noteq> []" "h2 ! 0 = CHR '';''" "contains (slice 1 6 h2) ''AIRAC''"
    and a1: "new_AIRACcycle pint strptime h1 = Inr a1"
    and a2: "new_AIRACcycle pint strptime h2 = Inr a2"
    and ne: "cycle a1 \<noteq> cycle a2"
  shows "load pfloat pint strptime
           \<lparr>wpNavAID = [h1], wpNavFIX = [], wpNavAPT = [h2], airports = ap, wpNavRTE = rte\<rparr>
         = Inl (WrongAIRACcycleError ''wpNavFIX.txt'')"
proof -
  have 1: "load_points pint strptime ''wpNavAID.txt'' ''wpNavAID.txt'' (navaid_line pfloat) 0
             [h1] (None, Map.empty, 0) = Inr (Some a1, Map.empty, 0)"
    unfolding load_points_header[OF l1] by (simp add: a1)
  have 3: "load_points pint strptime ''wpNavAPT.txt'' ''wpNavFIX.txt'' (rwy_line pfloat) 0
             [h2] (Some a1, Map.empty, 0) = Inl (WrongAIRACcycleError ''wpNavFIX.txt'')"
    unfolding load_points_header[OF l2] using ne by (simp add: a2)
  show ?thesis unfolding load_def
    by (simp only: files.simps 1 3 load_points.simps(1) sum.case prod.case)
qed

text \<open>The two header lines, of cycles 2301 and 2302.\<close>

theorem load_cycle_mismatch_in_APT_witness:
  "new_AIRACcycle int_dec date_dec header_2301 =
      Inr \<lparr>cycle = 2301, date_begin = (2023, 1, 26), date_end = (2023, 2, 22)\<rparr>
   \<and> new_AIRACcycle int_dec date_dec header_2302 =
      Inr \<lparr>cycle = 2302, date_begin = (2023, 2, 23), date_end = (2023, 3, 22)\<rparr>
   \<and> load (\<lambda>s. None) int_dec date_dec
        \<lparr>wpNavAID = [header_2301], wpNavFIX = [], wpNavAPT = [header_2302],
         airports = [], wpNavRTE = []\<rparr>
      = Inl (WrongAIRACcycleError ''wpNavFIX.txt'')"
proof -
  have l1: "header_2301 \<noteq> []" "header_2301 ! 0 = CHR '';''" "contains (slice 1 6 header_2301) ''AIRAC''"
    by (simp_all add: header_2301_def slice_def)
  have l2: "header_2302 \<noteq> []" "header_2302 ! 0 = CHR '';''" "contains (slice 1 6 header_2302) ''AIRAC''"
    by (simp_all add: header_2302_def slice_def)
  have a1: "new_AIRACcycle int_dec date_dec header_2301 =
      Inr \<lparr>cycle = 2301, date_begin = (2023, 1, 26), date_end = (2023, 2, 22)\<rparr>"
    by (simp add: new_AIRACcycle_def header_2301_def slice_def int_dec_def date_dec_def
          str_isdigit_def chr_defs nat_of_digits_def digit_val_def)
  have a2: "new_AIRACcycle int_dec date_dec header_2302 =
      Inr \<lparr>cycle = 2302, date_begin = (2023, 2, 23), date_end = (2023, 3, 22)\<rparr>"
    by (simp add: new_AIRACcycle_def header_2302_def slice_def int_dec_def date_dec_def
          str_isdigit_def chr_defs nat_of_digits_def digit_val_def)
  show ?thesis using load_cycle_mismatch_in_APT[OF l1 l2 a1 a2, of "\<lambda>s. None" "[]" "[]"] a1 a2 by simp
qed

section \<open>The loader: an airways file without data lines\<close>

lemma load_airways_comments:
  assumes "list_all (\<lambda>l. take 1 l = '';'') ls"
  shows "(\<exists>e. load_airways pfloat pint strptime k ls (cur, aw, None, n) = Inl e)
       \<or> (\<exists>cur'. load_airways pfloat pint strptime k ls (cur, aw, None, n) = Inr (cur', aw, None, n))"
  using assms
proof (induction ls arbitrary: k cur)
  case Nil
  then show ?case by simp
next
  case (Cons l ls)
  then have l: "l \<noteq> []" "l ! 0 = CHR '';''" by (cases l; simp)+
  have r: "list_all (\<lambda>l. take 1 l = '';'') ls" using Cons.prems by simp
  show ?case
  proof (cases "comment_line pint strptime ''wpNavRTE.txt'' cur l")
    case (Inl e)
    then show ?thesis using l by simp
  next
    case (Inr cur')
    then show ?thesis using l Cons.IH[OF r, of "Suc k" cur'] by simp
  qed
qed

text \<open>
  C9. When every line of the airways file starts with \<open>;\<close> (or the file has no line),
  the load does not complete: whatever the other four files hold, it raises, and no
  database, with or without airways, is returned.
\<close>

theorem load_without_airway_lines_fails:
  assumes "list_all (\<lambda>l. take 1 l = '';'') (wpNavRTE fs)"
  shows "\<exists>e. load pfloat pint strptime fs = Inl e"
proof -
  have "\<And>cur. \<exists>e. (case load_airways pfloat pint strptime 0 (wpNavRTE fs) (cur, Map.empty, None, 0) of
                 Inl e \<Rightarrow> Inl e
               | Inr (a5, aw, cawy, n5) \<Rightarrow>
                   (case cawy of None \<Rightarrow> Inl AttributeError
                    | Some c \<Rightarrow> Inr (X a5 aw c n5))) = Inl e" for X :: "AIRACcycle option \<Rightarrow> (string \<rightharpoonup> route) \<Rightarrow> route \<Rightarrow> nat \<Rightarrow> navdb"
    using load_airways_comments[OF assms, of pfloat pint strptime 0 _ Map.empty 0] 
    by (metis (no_types, lifting) old.sum.simps(5,6) option.simps(4) prod.simps(2))
  then show ?thesis unfolding load_def
    by (auto split: sum.splits prod.splits option.splits)
qed

text \<open>
  With four empty point files the error is the \<open>AttributeError\<close> of the final flush
  reading \<open>cawy.name\<close>, for an airways file of one comment line and for an empty one.
\<close>

theorem load_without_airway_lines_fails_witness:
  "list_all (\<lambda>l. take 1 l = '';'') ['';no airways'']
   \<and> load (\<lambda>s. None) int_dec date_dec
        \<lparr>wpNavAID = [], wpNavFIX = [], wpNavAPT = [], airports = [],
         wpNavRTE = ['';no airways'']\<rparr> = Inl AttributeError
   \<and> load (\<lambda>s. None) int_dec date_dec
        \<lparr>wpNavAID = [], wpNavFIX = [], wpNavAPT = [], airports = [], wpNavRTE = []\<rparr>
       = Inl AttributeError"
proof -
  let ?fs = "\<lparr>wpNavAID = [], wpNavFIX = [], wpNavAPT = [], airports = [],
              wpNavRTE = ['';no airways'']\<rparr>"
  have h: "list_all (\<lambda>l. take 1 l = '';'') (wpNavRTE ?fs)" by simp
  have 1: "load (\<lambda>s. None) int_dec date_dec ?fs = Inl AttributeError"
    using load_without_airway_lines_fails[OF h, of "\<lambda>s. None" int_dec date_dec]
    by (simp add: load_def comment_line_def slice_def)
  have 2: "load (\<lambda>s. None) int_dec date_dec
        \<lparr>wpNavAID = [], wpNavFIX = [], wpNavAPT = [], airports = [], wpNavRTE = []\<rparr>
       = Inl AttributeError"
    by (simp add: load_def)
  show ?thesis using 1 2 by simp
qed

end
